theory Spec2Isabelle
  imports Complex_Main
begin

section \<open>Exceptions as values\<close>

text \<open>
  The exceptions the adapters and the repository fetcher can raise.  Every class but
  \<open>KeyboardInterrupt\<close> derives from Python's \<open>Exception\<close>; \<open>OtherException\<close> stands
  for whatever an external engine (Keras, Theano, MXNet, GitPython) raises on its own.
\<close>

datatype error =
    AssertionError
  | NotImplementedError
  | ValueError
  | IndexError
  | TypeError
  | GitCloneError
  | OtherException string
  | KeyboardInterrupt

fun is_Exception :: "error \<Rightarrow> bool" where
  "is_Exception KeyboardInterrupt = False"
| "is_Exception _ = True"

definition rbind :: "error + 'a \<Rightarrow> ('a \<Rightarrow> error + 'b) \<Rightarrow> error + 'b" where
  "rbind m f = (case m of Inl e \<Rightarrow> Inl e | Inr x \<Rightarrow> f x)"

section \<open>Arrays\<close>

text \<open>
  A numpy array: its shape, its dtype and its elements in row-major order.  Element
  values are real numbers: rounding, overflow, infinities and NaN are outside the model,
  so a cast between floating dtypes changes the dtype only, and a cast to an integer
  dtype truncates toward zero.
\<close>

datatype dtype = Float32 | Float64 | Int32 | Int64

record tensor =
  shape :: "nat list"
  dtype :: dtype
  data :: "real list"

definition wf_tensor :: "tensor \<Rightarrow> bool" where
  "wf_tensor t = (length (data t) = prod_list (shape t))"

definition ndim :: "tensor \<Rightarrow> nat" where
  "ndim t = length (shape t)"

text \<open>\<open>t.shape[0]\<close>: indexing the empty shape tuple raises \<open>IndexError\<close>.\<close>

definition shape0 :: "tensor \<Rightarrow> error + nat" where
  "shape0 t = (case shape t of [] \<Rightarrow> Inl IndexError | n # _ \<Rightarrow> Inr n)"

text \<open>\<open>t[np.newaxis]\<close> (and \<open>np.array([t])\<close>): a new leading axis of length one.\<close>

definition newaxis :: "tensor \<Rightarrow> tensor" where
  "newaxis t = t\<lparr>shape := 1 # shape t\<rparr>"

text \<open>
  \<open>np.squeeze(t, axis=0)\<close>: removes the leading axis when its length is one and raises
  otherwise (\<open>ValueError\<close>; numpy's \<open>AxisError\<close> for a 0-d array derives from it).
\<close>

definition squeeze0 :: "tensor \<Rightarrow> error + tensor" where
  "squeeze0 t =
     (case shape t of
        [] \<Rightarrow> Inl ValueError
      | n # s \<Rightarrow> if n = 1 then Inr (t\<lparr>shape := s\<rparr>) else Inl ValueError)"

text \<open>\<open>t[0]\<close>: the first sub-array; \<open>IndexError\<close> on a 0-d array or an empty leading axis.\<close>

definition index0 :: "tensor \<Rightarrow> error + tensor" where
  "index0 t =
     (case shape t of
        [] \<Rightarrow> Inl IndexError
      | n # s \<Rightarrow> if n = 0 then Inl IndexError
                else Inr (t\<lparr>shape := s, data := take (prod_list s) (data t)\<rparr>))"

fun is_float :: "dtype \<Rightarrow> bool" where
  "is_float Float32 = True"
| "is_float Float64 = True"
| "is_float _ = False"

definition trunc :: "real \<Rightarrow> real" where
  "trunc x = (if 0 \<le> x then of_int \<lfloor>x\<rfloor> else of_int \<lceil>x\<rceil>)"

definition astype :: "dtype \<Rightarrow> tensor \<Rightarrow> tensor" where
  "astype d t =
     t\<lparr>dtype := d, data := (if is_float d then data t else map trunc (data t))\<rparr>"

subsection \<open>Broadcasting\<close>

text \<open>
  numpy's broadcasting rule on shapes aligned at their last axis, here on reversed
  shapes: two lengths are compatible when they are equal or one of them is one.
\<close>

fun bc_rev :: "nat list \<Rightarrow> nat list \<Rightarrow> nat list option" where
  "bc_rev [] ys = Some ys"
| "bc_rev (x # xs) [] = Some (x # xs)"
| "bc_rev (x # xs) (y # ys) =
     (if x = y \<or> y = 1 then map_option ((#) x) (bc_rev xs ys)
      else if x = 1 then map_option ((#) y) (bc_rev xs ys)
      else None)"

definition broadcast_shapes :: "nat list \<Rightarrow> nat list \<Rightarrow> nat list option" where
  "broadcast_shapes a b = map_option rev (bc_rev (rev a) (rev b))"

text \<open>The multi-index (last axis first) of a row-major position in a reversed shape.\<close>

fun unravel_rev :: "nat list \<Rightarrow> nat \<Rightarrow> nat list" where
  "unravel_rev [] i = []"
| "unravel_rev (d # ds) i = (i mod d) # unravel_rev ds (i div d)"

text \<open>
  The row-major position in an operand of reversed shape \<open>ds\<close> that a multi-index of the
  broadcast result reads: an axis of length one is read at 0, axes the operand does not
  have are ignored.
\<close>

fun ravel_rev :: "nat list \<Rightarrow> nat list \<Rightarrow> nat" where
  "ravel_rev [] ks = 0"
| "ravel_rev (d # ds) [] = 0"
| "ravel_rev (d # ds) (k # ks) = (if d = 1 then 0 else k) + d * ravel_rev ds ks"

definition bc_index :: "nat list \<Rightarrow> nat list \<Rightarrow> nat \<Rightarrow> nat" where
  "bc_index s t i = ravel_rev (rev t) (unravel_rev (rev s) i)"

text \<open>
  An elementwise binary operation \<open>a op b\<close> with broadcasting; incompatible shapes raise
  \<open>ValueError\<close>.  numpy's dtype promotion is not modelled: the result carries the dtype
  of the left operand, the array being transformed.
\<close>

definition binop :: "(real \<Rightarrow> real \<Rightarrow> real) \<Rightarrow> tensor \<Rightarrow> tensor \<Rightarrow> error + tensor" where
  "binop f a b =
     (case broadcast_shapes (shape a) (shape b) of
        None \<Rightarrow> Inl ValueError
      | Some s \<Rightarrow>
          Inr \<lparr>shape = s, dtype = dtype a,
               data = map (\<lambda>i. f (data a ! bc_index s (shape a) i)
                                  (data b ! bc_index s (shape b) i))
                          [0..<prod_list s]\<rparr>)"

definition tensor_sub :: "tensor \<Rightarrow> tensor \<Rightarrow> error + tensor" where
  "tensor_sub = binop (-)"

definition tensor_div :: "tensor \<Rightarrow> tensor \<Rightarrow> error + tensor" where
  "tensor_div = binop (/)"

definition tensor_mul :: "tensor \<Rightarrow> tensor \<Rightarrow> error + tensor" where
  "tensor_mul = binop (*)"

text \<open>\<open>1 / d\<close> elementwise, in the shape of \<open>d\<close>.\<close>

definition reciprocal :: "tensor \<Rightarrow> tensor" where
  "reciprocal d = d\<lparr>data := map (\<lambda>x. 1 / x) (data d)\<rparr>"

text \<open>A Python number as a 0-d array.\<close>

definition scalar :: "dtype \<Rightarrow> real \<Rightarrow> tensor" where
  "scalar d x = \<lparr>shape = [], dtype = d, data = [x]\<rparr>"

section \<open>The preprocessing transform\<close>

text \<open>
  The base class \<open>DifferentiableModel\<close> (\<open>foolbox/models/base.py\<close>) keeps the bounds, the
  channel axis and the preprocessing parameters of every adapter.
\<close>

record preprocessing =
  subtrahend :: tensor
  divisor :: tensor

record base_model =
  bounds :: "real \<times> real"
  channel_axis :: nat
  preprocessing :: preprocessing

text \<open>
  Modelled from the spec: \<open>DifferentiableModel.__init__\<close> of \<open>foolbox/models/base.py\<close>,
  which is not among the sources.  It stores its three arguments.
\<close>

definition base_init :: "real \<times> real \<Rightarrow> nat \<Rightarrow> preprocessing \<Rightarrow> base_model" where
  "base_init b c p = \<lparr>bounds = b, channel_axis = c, preprocessing = p\<rparr>"

text \<open>
  Modelled from the spec: \<open>_process_input\<close> of \<open>foolbox/models/base.py\<close>, which is not
  among the sources; the spec's \<open>apply(raw) -> (normalized, gradient_scale)\<close> with
  \<open>normalized = (raw - subtrahend) / divisor\<close> elementwise with broadcasting and
  \<open>gradient_scale = 1 / divisor\<close>.  Scalars are not special-cased.
\<close>

definition process_input :: "preprocessing \<Rightarrow> tensor \<Rightarrow> error + tensor \<times> tensor" where
  "process_input p x =
     rbind (tensor_sub x (subtrahend p)) (\<lambda>y.
     rbind (tensor_div y (divisor p)) (\<lambda>normalized.
     Inr (normalized, reciprocal (divisor p))))"

text \<open>
  Modelled from the spec: \<open>_process_gradient\<close> of \<open>foolbox/models/base.py\<close>, which is not
  among the sources; the spec's \<open>unapply_gradient(gradient_scale, gradient_wrt_normalized)\<close>,
  the elementwise product with broadcasting.
\<close>

definition process_gradient :: "tensor \<Rightarrow> tensor \<Rightarrow> error + tensor" where
  "process_gradient gradient_scale g = tensor_mul g gradient_scale"

text \<open>
  The spec's data model asks for parameters broadcastable against the input: here, a
  parameter of shape \<open>t\<close> broadcasts to an input of shape \<open>s\<close> without enlarging it.
\<close>

definition broadcastable_to :: "nat list \<Rightarrow> nat list \<Rightarrow> bool" where
  "broadcastable_to t s = (broadcast_shapes s t = Some s)"

section \<open>The Keras adapter\<close>

text \<open>
  The symbolic graph the constructor of \<open>KerasModel\<close> builds through the Keras backend
  \<open>K\<close>: one constructor for each backend call it makes.
\<close>

datatype kshape = Dims "nat option list" | ShapeOf ksym
and ksym =
    KTensor string
  | KPlaceholder kshape
  | KSparseCCE ksym ksym bool
  | KSum0 ksym
  | KGradient ksym ksym
  | KBatchDot ksym ksym
  | KClip ksym real real
  | KLog ksym

text \<open>
  What the constructor reads from the installed engine and from the wrapped model:
  the release numbers of \<open>keras.__version__\<close>, \<open>K.backend()\<close>, \<open>model.input\<close>,
  \<open>model.output\<close>, \<open>K.int_shape\<close> of the output (\<open>None\<close> for an unknown rank),
  the inputs of the op that produces the output, and \<open>K.function\<close>, which compiles
  a list of inputs and a list of outputs into a callable from arrays to arrays.
\<close>

record keras_env =
  keras_version :: "nat list"
  K_backend :: string
  model_input :: ksym
  model_output :: ksym
  K_int_shape :: "nat option list option"
  output_op_inputs :: "ksym list"
  K_function :: "ksym list \<Rightarrow> ksym list \<Rightarrow> tensor list \<Rightarrow> error + tensor list"

text \<open>
  \<open>parse_version(a) <= parse_version(b)\<close> on plain release versions: the release
  numbers compare lexicographically, a missing number counting as 0.
\<close>

fun version_le :: "nat list \<Rightarrow> nat list \<Rightarrow> bool" where
  "version_le [] ys = True"
| "version_le (x # xs) [] = (x = 0 \<and> version_le xs [])"
| "version_le (x # xs) (y # ys) = (x < y \<or> (x = y \<and> version_le xs ys))"

record KerasModel = base_model +
  k_num_classes :: nat
  k_loss :: ksym
  k_predictions :: ksym
  k_loss_fn :: "tensor list \<Rightarrow> error + tensor list"
  k_batch_pred_fn :: "tensor list \<Rightarrow> error + tensor list"
  k_pred_grad_fn :: "tensor list \<Rightarrow> error + tensor list"
  k_batch_grad_fn :: "tensor list \<Rightarrow> error + tensor list"
  k_bw_grad_fn :: "tensor list \<Rightarrow> error + tensor list"

text \<open>\<open>_to_logits\<close>, with \<open>eps = 10e-8\<close>.\<close>

definition Keras_to_logits :: "ksym \<Rightarrow> ksym" where
  "Keras_to_logits predictions =
     (let eps = 10 / 10 ^ 8;
          predictions = KClip predictions eps (1 - eps)
      in KLog predictions)"

text \<open>
  The part of \<open>KerasModel.__init__\<close> after the class count is known: the loss for the
  chosen output convention, the two gradients and the five compiled functions.  The
  second component is what was logged with \<open>logging.warning\<close>.  With a value of
  \<open>predicts\<close> that is neither convention no loss is bound; the constructor excludes
  it beforehand.
\<close>

definition Keras_compile ::
  "keras_env \<Rightarrow> base_model \<Rightarrow> string \<Rightarrow> nat \<Rightarrow> (error + KerasModel) \<times> string list" where
  "Keras_compile env base predicts num_classes =
     (let images_input = model_input env;
          labels_input = KPlaceholder (Dims [None]);
          predictions = model_output env;
          finish = (\<lambda>loss predictions.
            let loss = KSum0 loss;
                grad = KGradient loss images_input;
                grad_loss_output = KPlaceholder (ShapeOf predictions);
                external_loss = KBatchDot predictions grad_loss_output;
                external_loss = KSum0 external_loss;
                grad_loss_input = KGradient external_loss images_input
            in \<lparr>bounds = bounds base, channel_axis = channel_axis base,
                preprocessing = preprocessing base,
                k_num_classes = num_classes,
                k_loss = loss,
                k_predictions = predictions,
                k_loss_fn = K_function env [images_input, labels_input] [loss],
                k_batch_pred_fn = K_function env [images_input] [predictions],
                k_pred_grad_fn =
                  K_function env [images_input, labels_input] [predictions, grad],
                k_batch_grad_fn = K_function env [images_input, labels_input] [grad],
                k_bw_grad_fn =
                  K_function env [grad_loss_output, images_input] [grad_loss_input]\<rparr>)
      in if predicts = ''probabilities'' then
           (if K_backend env = ''tensorflow'' then
              (case output_op_inputs env of
                 [predictions] \<Rightarrow>
                   (Inr (finish (KSparseCCE labels_input predictions True) predictions), [])
               | _ \<Rightarrow> (Inl ValueError, []))
            else
              (Inr (finish (KSparseCCE labels_input predictions False)
                           (Keras_to_logits predictions)),
               [''relying on numerically unstable conversion from probabilities to softmax'']))
         else if predicts = ''logits'' then
           (Inr (finish (KSparseCCE labels_input predictions True) predictions), [])
         else (Inl (OtherException ''UnboundLocalError''), []))"

text \<open>
  \<open>KerasModel.__init__(model, bounds, channel_axis, preprocessing, predicts)\<close>: the
  version check, the alias \<open>'probs'\<close>, the check of \<open>predicts\<close>, the class count read
  from the output shape, then the compilation.
\<close>

definition KerasModel_init ::
  "keras_env \<Rightarrow> real \<times> real \<Rightarrow> nat \<Rightarrow> preprocessing \<Rightarrow> string
     \<Rightarrow> (error + KerasModel) \<times> string list" where
  "KerasModel_init env bnds caxis prep predicts0 =
     (let base = base_init bnds caxis prep in
      if \<not> version_le [2, 0, 7] (keras_version env) then (Inl AssertionError, [])
      else
        let predicts = (if predicts0 = ''probs'' then ''probabilities'' else predicts0) in
        if predicts \<notin> set [''probabilities'', ''logits''] then (Inl AssertionError, [])
        else
          (case K_int_shape env of
             None \<Rightarrow> (Inl TypeError, [])
           | Some [_, num_classes] \<Rightarrow>
               (case num_classes of
                  None \<Rightarrow> (Inl AssertionError, [])
                | Some n \<Rightarrow> Keras_compile env base predicts n)
           | Some _ \<Rightarrow> (Inl ValueError, [])))"

definition Keras_num_classes :: "KerasModel \<Rightarrow> nat" where
  "Keras_num_classes m = k_num_classes m"


definition Keras_predictions_and_gradient ::
  "KerasModel \<Rightarrow> tensor \<Rightarrow> tensor \<Rightarrow> error + tensor \<times> tensor" where
  "Keras_predictions_and_gradient m img label =
     (let input_shape = shape img in
      rbind (process_input (preprocessing m) img) (\<lambda>(px, dpdx).
      rbind (k_pred_grad_fn m [newaxis px, newaxis label]) (\<lambda>outs.
        case outs of
          [predictions, gradient] \<Rightarrow>
            rbind (squeeze0 predictions) (\<lambda>predictions.
            rbind (squeeze0 gradient) (\<lambda>gradient.
            rbind (process_gradient dpdx gradient) (\<lambda>gradient.
              if shape predictions \<noteq> [Keras_num_classes m] then Inl AssertionError
              else if shape gradient \<noteq> input_shape then Inl AssertionError
              else Inr (predictions, gradient))))
        | _ \<Rightarrow> Inl ValueError)))"

definition Keras_batch_gradients :: "KerasModel \<Rightarrow> tensor \<Rightarrow> tensor \<Rightarrow> error + tensor" where
  "Keras_batch_gradients m images labels =
     rbind (process_input (preprocessing m) images) (\<lambda>(px, dpdx).
     rbind (k_batch_grad_fn m [px, labels]) (\<lambda>outs.
       case outs of
         [g] \<Rightarrow>
           rbind (process_gradient dpdx g) (\<lambda>g.
             if shape g = shape images then Inr g else Inl AssertionError)
       | _ \<Rightarrow> Inl ValueError))"

definition Keras_batch_backward :: "KerasModel \<Rightarrow> tensor \<Rightarrow> tensor \<Rightarrow> error + tensor" where
  "Keras_batch_backward m gradients images =
     (if ndim gradients \<noteq> 2 then Inl AssertionError
      else
        rbind (process_input (preprocessing m) images) (\<lambda>(px, dpdx).
        rbind (k_bw_grad_fn m [gradients, px]) (\<lambda>outs.
          case outs of
            [g] \<Rightarrow>
              rbind (process_gradient dpdx g) (\<lambda>g.
                if shape g = shape images then Inr g else Inl AssertionError)
          | _ \<Rightarrow> Inl ValueError)))"

section \<open>The Lasagne adapter\<close>

text \<open>The symbolic Theano graph the constructor of \<open>LasagneModel\<close> builds.\<close>

datatype tsym =
    TVar string
  | TSoftmax tsym
  | TCategoricalCrossentropy tsym tsym
  | TIndex0 tsym
  | TGrad tsym tsym
  | TMul tsym tsym
  | TSumAll tsym

text \<open>
  What the constructor reads from the layers and from Theano: \<open>input_layer.input_var\<close>,
  \<open>lasagne.layers.get_output_shape(logits_layer)\<close>,
  \<open>lasagne.layers.get_output(logits_layer)\<close>, and \<open>th.function\<close> with a single output
  and with a list of outputs.
\<close>

record lasagne_env =
  input_var :: tsym
  get_output_shape :: "nat option list"
  get_output :: tsym
  th_function1 :: "tsym list \<Rightarrow> tsym \<Rightarrow> tensor list \<Rightarrow> error + tensor"
  th_function :: "tsym list \<Rightarrow> tsym list \<Rightarrow> tensor list \<Rightarrow> error + tensor list"

record LasagneModel = base_model +
  l_num_classes :: "nat option"
  l_batch_prediction_fn :: "tensor list \<Rightarrow> error + tensor"
  l_predictions_and_gradient_fn :: "tensor list \<Rightarrow> error + tensor list"
  l_gradient_fn :: "tensor list \<Rightarrow> error + tensor"
  l_loss_fn :: "tensor list \<Rightarrow> error + tensor"
  l_bw_gradient_fn :: "tensor list \<Rightarrow> error + tensor"

text \<open>
  \<open>LasagneModel.__init__(input_layer, logits_layer, bounds, channel_axis, preprocessing)\<close>.
  The second component is the deprecation warning it issues.  The class count is the
  second entry of the output shape, stored as it is.
\<close>

definition LasagneModel_init ::
  "lasagne_env \<Rightarrow> real \<times> real \<Rightarrow> nat \<Rightarrow> preprocessing
     \<Rightarrow> (error + LasagneModel) \<times> string list" where
  "LasagneModel_init env bnds caxis prep =
     (let base = base_init bnds caxis prep;
          warned = [''Theano is no longer being developed and Lasagne support in Foolbox will be removed''];
          images = input_var env;
          labels = TVar ''labels'';
          bw_gradient_pre = TVar ''bw_gradient_pre''
      in case get_output_shape env of
           [_, num_classes] \<Rightarrow>
             (let logits = get_output env;
                  probs = TSoftmax logits;
                  loss = TCategoricalCrossentropy probs labels;
                  gradient = TGrad (TIndex0 loss) images;
                  bw_loss = TSumAll (TMul logits bw_gradient_pre);
                  bw_gradient = TGrad bw_loss images
              in (Inr \<lparr>bounds = bounds base, channel_axis = channel_axis base,
                       preprocessing = preprocessing base,
                       l_num_classes = num_classes,
                       l_batch_prediction_fn = th_function1 env [images] logits,
                       l_predictions_and_gradient_fn =
                         th_function env [images, labels] [logits, gradient],
                       l_gradient_fn = th_function1 env [images, labels] gradient,
                       l_loss_fn = th_function1 env [images, labels] loss,
                       l_bw_gradient_fn =
                         th_function1 env [bw_gradient_pre, images] bw_gradient\<rparr>,
                  warned))
         | _ \<Rightarrow> (Inl ValueError, warned))"

definition Lasagne_num_classes :: "LasagneModel \<Rightarrow> nat option" where
  "Lasagne_num_classes m = l_num_classes m"


definition Lasagne_predictions_and_gradient ::
  "LasagneModel \<Rightarrow> tensor \<Rightarrow> tensor \<Rightarrow> error + tensor \<times> tensor" where
  "Lasagne_predictions_and_gradient m img0 label0 =
     (let input_shape = shape img0 in
      rbind (process_input (preprocessing m) img0) (\<lambda>(img, dpdx).
        let label = astype Int32 label0 in
        rbind (l_predictions_and_gradient_fn m [newaxis img, newaxis label]) (\<lambda>outs.
          case outs of
            [predictions, gradient] \<Rightarrow>
              rbind (squeeze0 predictions) (\<lambda>predictions.
              rbind (squeeze0 gradient) (\<lambda>gradient.
                let gradient = astype (dtype img) gradient in
                rbind (process_gradient dpdx gradient) (\<lambda>gradient.
                  if map Some (shape predictions) \<noteq> [Lasagne_num_classes m]
                  then Inl AssertionError
                  else if shape gradient \<noteq> input_shape then Inl AssertionError
                  else if dtype gradient \<noteq> dtype img then Inl AssertionError
                  else Inr (predictions, gradient))))
          | _ \<Rightarrow> Inl ValueError)))"

definition Lasagne_gradient_one :: "LasagneModel \<Rightarrow> tensor \<Rightarrow> tensor \<Rightarrow> error + tensor" where
  "Lasagne_gradient_one m img0 label0 =
     (let input_shape = shape img0 in
      rbind (process_input (preprocessing m) img0) (\<lambda>(img, dpdx).
        let label = astype Int32 label0 in
        rbind (l_gradient_fn m [newaxis img, newaxis label]) (\<lambda>gradient.
        rbind (squeeze0 gradient) (\<lambda>gradient.
          let gradient = astype (dtype img) gradient in
          rbind (process_gradient dpdx gradient) (\<lambda>gradient.
            if shape gradient \<noteq> input_shape then Inl AssertionError
            else if dtype gradient \<noteq> dtype img then Inl AssertionError
            else Inr gradient)))))"

definition Lasagne_batch_gradients ::
  "LasagneModel \<Rightarrow> tensor \<Rightarrow> tensor \<Rightarrow> error + tensor" where
  "Lasagne_batch_gradients m images labels =
     rbind (shape0 images) (\<lambda>n.
     rbind (shape0 labels) (\<lambda>k.
       if n = k \<and> k = 1 then
         rbind (index0 images) (\<lambda>img.
         rbind (index0 labels) (\<lambda>label.
         rbind (Lasagne_gradient_one m img label) (\<lambda>g. Inr (newaxis g))))
       else Inl NotImplementedError))"

definition Lasagne_backward_one :: "LasagneModel \<Rightarrow> tensor \<Rightarrow> tensor \<Rightarrow> error + tensor" where
  "Lasagne_backward_one m gradient0 img0 =
     (if ndim gradient0 \<noteq> 1 then Inl AssertionError
      else
        let input_shape = shape img0 in
        rbind (process_input (preprocessing m) img0) (\<lambda>(img, dpdx).
        rbind (l_bw_gradient_fn m [newaxis gradient0, newaxis img]) (\<lambda>gradient.
        rbind (squeeze0 gradient) (\<lambda>gradient.
          let gradient = astype (dtype img) gradient in
          rbind (process_gradient dpdx gradient) (\<lambda>gradient.
            if shape gradient \<noteq> input_shape then Inl AssertionError
            else if dtype gradient \<noteq> dtype img then Inl AssertionError
            else Inr gradient)))))"

definition Lasagne_batch_backward ::
  "LasagneModel \<Rightarrow> tensor \<Rightarrow> tensor \<Rightarrow> error + tensor" where
  "Lasagne_batch_backward m gradients images =
     rbind (shape0 images) (\<lambda>n.
     rbind (shape0 gradients) (\<lambda>k.
       if n = k \<and> k = 1 then
         rbind (index0 gradients) (\<lambda>gradient.
         rbind (index0 images) (\<lambda>img.
         rbind (Lasagne_backward_one m gradient img) (\<lambda>g. Inr (newaxis g))))
       else Inl NotImplementedError))"

section \<open>The MXNet Gluon adapter\<close>

datatype device = Cpu | Gpu nat

text \<open>
  A Gluon block as the adapter uses it under \<open>mx.autograd.record\<close>: its forward pass,
  the value of \<open>loss = softmax_cross_entropy(block(data), labels)\<close>, the gradient left
  in \<open>data.grad\<close> by \<open>loss.backward()\<close>, and the gradient left there by
  \<open>block(data).backward(head)\<close>.  The conversions \<open>mx.nd.array\<close> and \<open>asnumpy\<close>
  are part of these three functions.
\<close>

record gluon_block =
  forward :: "tensor \<Rightarrow> error + tensor"
  cross_entropy :: "tensor \<Rightarrow> tensor \<Rightarrow> error + tensor"
  cross_entropy_backward :: "tensor \<Rightarrow> tensor \<Rightarrow> error + tensor"
  backward :: "tensor \<Rightarrow> tensor \<Rightarrow> error + tensor"

record MXNetGluonModel = base_model +
  mx_num_classes :: nat
  mx_device :: device
  mx_block :: gluon_block

text \<open>
  \<open>MXNetGluonModel.__init__(block, bounds, num_classes, ctx, channel_axis, preprocessing)\<close>:
  the class count is the caller's argument; \<open>ctx=None\<close> means the CPU.
\<close>

definition MXNetGluonModel_init ::
  "gluon_block \<Rightarrow> real \<times> real \<Rightarrow> nat \<Rightarrow> device option \<Rightarrow> nat \<Rightarrow> preprocessing
     \<Rightarrow> MXNetGluonModel" where
  "MXNetGluonModel_init block bnds num_classes ctx0 caxis prep =
     (let ctx = (case ctx0 of None \<Rightarrow> Cpu | Some c \<Rightarrow> c);
          base = base_init bnds caxis prep
      in \<lparr>bounds = bounds base, channel_axis = channel_axis base,
          preprocessing = preprocessing base,
          mx_num_classes = num_classes, mx_device = ctx, mx_block = block\<rparr>)"

definition MXNet_num_classes :: "MXNetGluonModel \<Rightarrow> nat" where
  "MXNet_num_classes m = mx_num_classes m"


definition MXNet_predictions_and_gradient ::
  "MXNetGluonModel \<Rightarrow> tensor \<Rightarrow> tensor \<Rightarrow> error + tensor \<times> tensor" where
  "MXNet_predictions_and_gradient m img0 label0 =
     rbind (process_input (preprocessing m) img0) (\<lambda>(img, dpdx).
       let label = newaxis label0;
           data_array = newaxis img
       in rbind (forward (mx_block m) data_array) (\<lambda>logits.
          rbind (cross_entropy_backward (mx_block m) data_array label) (\<lambda>grad.
          rbind (squeeze0 logits) (\<lambda>predictions.
          rbind (squeeze0 grad) (\<lambda>gradient.
          rbind (process_gradient dpdx gradient) (\<lambda>gradient.
            Inr (predictions, gradient)))))))"

definition MXNet_batch_gradients ::
  "MXNetGluonModel \<Rightarrow> tensor \<Rightarrow> tensor \<Rightarrow> error + tensor" where
  "MXNet_batch_gradients m images0 labels =
     rbind (process_input (preprocessing m) images0) (\<lambda>(images, dpdx).
     rbind (forward (mx_block m) images) (\<lambda>logits.
     rbind (cross_entropy_backward (mx_block m) images labels) (\<lambda>gradients.
       process_gradient dpdx gradients)))"

definition MXNet_loss_fn :: "MXNetGluonModel \<Rightarrow> tensor \<Rightarrow> tensor \<Rightarrow> error + tensor" where
  "MXNet_loss_fn m img0 label0 =
     rbind (process_input (preprocessing m) img0) (\<lambda>(img, _).
       let label = newaxis label0;
           data_array = newaxis img
       in rbind (forward (mx_block m) data_array) (\<lambda>logits.
          rbind (cross_entropy (mx_block m) data_array label) (\<lambda>loss.
          rbind (cross_entropy_backward (mx_block m) data_array label) (\<lambda>_.
            Inr loss))))"

definition MXNet_batch_backward ::
  "MXNetGluonModel \<Rightarrow> tensor \<Rightarrow> tensor \<Rightarrow> error + tensor" where
  "MXNet_batch_backward m gradients0 images0 =
     (if ndim gradients0 \<noteq> 2 then Inl AssertionError
      else
        rbind (process_input (preprocessing m) images0) (\<lambda>(images, dpdx).
        rbind (forward (mx_block m) images) (\<lambda>logits.
          if shape gradients0 \<noteq> shape logits then Inl AssertionError
          else
            rbind (backward (mx_block m) images gradients0) (\<lambda>gradients.
              process_gradient dpdx gradients))))"

section \<open>The repository fetcher\<close>

text \<open>
  The helpers of \<open>foolbox/zoo/common.py\<close> are not among the sources: \<open>sha256_hash\<close> and
  \<open>home_directory_path\<close> are parameters.
\<close>

record common =
  sha256_hash :: "string \<Rightarrow> string"
  home_directory_path :: "string \<Rightarrow> string \<Rightarrow> string"

text \<open>
  The world \<open>clone\<close> acts on: the paths that exist locally, what \<open>Repo.clone_from\<close>
  would raise for each URI (\<open>None\<close> when the remote can be retrieved), the clones
  performed so far, and the log.
\<close>

record world =
  paths :: "string list"
  remote :: "string \<Rightarrow> error option"
  clones :: "(string \<times> string) list"
  logged :: "string list"

definition FOLDER :: string where
  "FOLDER = ''.foolbox_zoo''"

text \<open>
  Modelled from the spec: \<open>path_exists\<close> of \<open>foolbox/zoo/common.py\<close>, which is not among
  the sources; whether content is already present locally at the path.
\<close>

definition path_exists :: "world \<Rightarrow> string \<Rightarrow> bool" where
  "path_exists w p = (p \<in> set (paths w))"

definition logging :: "string \<Rightarrow> world \<Rightarrow> world" where
  "logging msg w = w\<lparr>logged := logged w @ [msg]\<rparr>"

text \<open>
  \<open>Repo.clone_from(git_uri, local_path)\<close>: raises what the remote dictates, leaving the
  world as it is, or creates the local path.
\<close>

definition Repo_clone_from :: "string \<Rightarrow> string \<Rightarrow> world \<Rightarrow> (error + unit) \<times> world" where
  "Repo_clone_from git_uri local_path w =
     (case remote w git_uri of
        Some e \<Rightarrow> (Inl e, w)
      | None \<Rightarrow>
          (Inr (), w\<lparr>paths := local_path # paths w,
                     clones := clones w @ [(git_uri, local_path)]\<rparr>))"

text \<open>
  \<open>_clone_repo\<close>: \<open>except Exception\<close> catches every exception that derives from
  \<open>Exception\<close>.  The handler passes the exception to \<open>logging.exception\<close> as an
  argument of a message without a placeholder, which the logging module reports as a
  logging error without raising; then \<open>GitCloneError\<close> is raised.
\<close>

definition clone_repo :: "string \<Rightarrow> string \<Rightarrow> world \<Rightarrow> (error + unit) \<times> world" where
  "clone_repo git_uri local_path w =
     (let w1 = logging (''Cloning repo '' @ git_uri @ '' to '' @ local_path) w in
      case Repo_clone_from git_uri local_path w1 of
        (Inl e, w2) \<Rightarrow>
          if is_Exception e
          then (Inl GitCloneError, logging ''--- Logging error ---'' w2)
          else (Inl e, w2)
      | (Inr _, w2) \<Rightarrow> (Inr (), logging ''Cloned repo successfully.'' w2))"

definition clone :: "common \<Rightarrow> string \<Rightarrow> world \<Rightarrow> (error + string) \<times> world" where
  "clone c git_uri w =
     (let hash_digest = sha256_hash c git_uri;
          local_path = home_directory_path c FOLDER hash_digest;
          exists_locally = path_exists w local_path
      in if \<not> exists_locally then
           (case clone_repo git_uri local_path w of
              (Inl e, w') \<Rightarrow> (Inl e, w')
            | (Inr _, w') \<Rightarrow> (Inr local_path, w'))
         else (Inr local_path, logging ''Git repository already exists locally.'' w))"

section \<open>Sample arrays, engines and adapters\<close>

text \<open>
  A preprocessing that subtracts 1 and divides by 2, one float32 image \<open>[3, 5]\<close>, the
  same image as a batch of one and as float64, a label, and an upstream gradient for
  one example and three classes.
\<close>

definition ex_prep :: preprocessing where
  "ex_prep = \<lparr>subtrahend = scalar Float32 1, divisor = scalar Float32 2\<rparr>"

definition ex_image :: tensor where
  "ex_image = \<lparr>shape = [2], dtype = Float32, data = [3, 5]\<rparr>"

definition ex_image64 :: tensor where
  "ex_image64 = \<lparr>shape = [2], dtype = Float64, data = [3, 5]\<rparr>"

definition ex_images :: tensor where
  "ex_images = \<lparr>shape = [1, 2], dtype = Float32, data = [3, 5]\<rparr>"

definition ex_images2 :: tensor where
  "ex_images2 = \<lparr>shape = [2, 2], dtype = Float32, data = [3, 5, 7, 9]\<rparr>"

definition ex_label :: tensor where
  "ex_label = scalar Int64 1"

definition ex_labels :: tensor where
  "ex_labels = \<lparr>shape = [1], dtype = Int64, data = [1]\<rparr>"

definition ex_labels2 :: tensor where
  "ex_labels2 = \<lparr>shape = [2], dtype = Int64, data = [1, 0]\<rparr>"

definition ex_upstream :: tensor where
  "ex_upstream = \<lparr>shape = [1, 3], dtype = Float32, data = [1, 0, 0]\<rparr>"

definition ex_upstream2 :: tensor where
  "ex_upstream2 = \<lparr>shape = [2, 3], dtype = Float32, data = [1, 0, 0, 0, 1, 0]\<rparr>"


text \<open>
  A toy engine: three logits for one example, and a float32 gradient four times the
  array it differentiates at, in that array's shape.
\<close>

definition toy_logits :: tensor where
  "toy_logits = \<lparr>shape = [1, 3], dtype = Float32, data = [0, 1, 2]\<rparr>"

definition toy_grad :: "tensor \<Rightarrow> tensor" where
  "toy_grad x = x\<lparr>dtype := Float32, data := map (\<lambda>v. 4 * v) (data x)\<rparr>"

definition ex_keras :: KerasModel where
  "ex_keras =
     \<lparr>bounds = (0, 255), channel_axis = 3, preprocessing = ex_prep,
      k_num_classes = 3,
      k_loss = KTensor ''loss'',
      k_predictions = KTensor ''logits'',
      k_loss_fn = (\<lambda>xs. Inr [scalar Float32 0]),
      k_batch_pred_fn = (\<lambda>xs. Inr [toy_logits]),
      k_pred_grad_fn = (\<lambda>xs. Inr [toy_logits, toy_grad (hd xs)]),
      k_batch_grad_fn = (\<lambda>xs. Inr [toy_grad (hd xs)]),
      k_bw_grad_fn = (\<lambda>xs. Inr [toy_grad (last xs)])\<rparr>"

definition ex_lasagne :: LasagneModel where
  "ex_lasagne =
     \<lparr>bounds = (0, 255), channel_axis = 1, preprocessing = ex_prep,
      l_num_classes = Some 3,
      l_batch_prediction_fn = (\<lambda>xs. Inr toy_logits),
      l_predictions_and_gradient_fn = (\<lambda>xs. Inr [toy_logits, toy_grad (hd xs)]),
      l_gradient_fn = (\<lambda>xs. Inr (toy_grad (hd xs))),
      l_loss_fn = (\<lambda>xs. Inr (scalar Float32 0)),
      l_bw_gradient_fn = (\<lambda>xs. Inr (toy_grad (last xs)))\<rparr>"

definition toy_block :: gluon_block where
  "toy_block =
     \<lparr>forward = (\<lambda>x. Inr toy_logits),
      cross_entropy = (\<lambda>x labels. Inr (scalar Float32 0)),
      cross_entropy_backward = (\<lambda>x labels. Inr (toy_grad x)),
      backward = (\<lambda>x head. Inr (toy_grad x))\<rparr>"

definition ex_mxnet :: MXNetGluonModel where
  "ex_mxnet = MXNetGluonModel_init toy_block (0, 255) 3 None 1 ex_prep"

text \<open>The same block wrapped with a class count of 10.\<close>

definition ex_mxnet10 :: MXNetGluonModel where
  "ex_mxnet10 = MXNetGluonModel_init toy_block (0, 255) 10 None 1 ex_prep"

text \<open>
  The same block behind a preprocessing whose divisor is a 2 by 2 array; and a Lasagne
  adapter with the default preprocessing \<open>(0, 1)\<close> whose compiled function returns
  the gradient \<open>[1/2, 3/2]\<close>, with an image of integers.
\<close>

definition ex_prep_grid :: preprocessing where
  "ex_prep_grid =
     \<lparr>subtrahend = scalar Float32 0,
      divisor = \<lparr>shape = [2, 2], dtype = Float32, data = [1, 2, 4, 8]\<rparr>\<rparr>"

definition ex_mxnet_grid :: MXNetGluonModel where
  "ex_mxnet_grid = MXNetGluonModel_init toy_block (0, 255) 3 None 1 ex_prep_grid"

definition ex_prep_default :: preprocessing where
  "ex_prep_default = \<lparr>subtrahend = scalar Float32 0, divisor = scalar Float32 1\<rparr>"

definition ex_image_int :: tensor where
  "ex_image_int = \<lparr>shape = [2], dtype = Int64, data = [3, 5]\<rparr>"

definition half_grad :: tensor where
  "half_grad = \<lparr>shape = [1, 2], dtype = Float32, data = [1 / 2, 3 / 2]\<rparr>"

definition ex_lasagne_half :: LasagneModel where
  "ex_lasagne_half =
     ex_lasagne\<lparr>preprocessing := ex_prep_default,
                l_predictions_and_gradient_fn := (\<lambda>xs. Inr [toy_logits, half_grad])\<rparr>"

text \<open>
  Keras environments: version 2.1.5 on TensorFlow and on Theano with a softmax output
  of ten classes, and Keras 2.0.6.  Nothing is run through the compiled functions.
\<close>

definition ex_env_tf :: keras_env where
  "ex_env_tf =
     \<lparr>keras_version = [2, 1, 5], K_backend = ''tensorflow'',
      model_input = KTensor ''input_1'', model_output = KTensor ''softmax/Softmax'',
      K_int_shape = Some [None, Some 10],
      output_op_inputs = [KTensor ''dense/BiasAdd''],
      K_function = (\<lambda>ins outs xs. Inl (OtherException ''not run''))\<rparr>"

definition ex_env_theano :: keras_env where
  "ex_env_theano = ex_env_tf\<lparr>K_backend := ''theano''\<rparr>"

definition ex_env_old :: keras_env where
  "ex_env_old = ex_env_tf\<lparr>keras_version := [2, 0, 6]\<rparr>"

definition ex_env_unknown :: keras_env where
  "ex_env_unknown = ex_env_tf\<lparr>K_int_shape := Some [None, None]\<rparr>"

text \<open>A Lasagne network whose output shape has no known entry.\<close>

definition ex_lasagne_env :: lasagne_env where
  "ex_lasagne_env =
     \<lparr>input_var = TVar ''inputs'', get_output_shape = [None, None],
      get_output = TVar ''logits'',
      th_function1 = (\<lambda>ins out xs. Inl (OtherException ''not run'')),
      th_function = (\<lambda>ins outs xs. Inl (OtherException ''not run''))\<rparr>"

text \<open>
  A world with an empty cache in which one repository can be retrieved and another one
  cannot, and toy stand-ins for the two helpers.
\<close>

definition ex_common :: common where
  "ex_common =
     \<lparr>sha256_hash = (\<lambda>u. ''h'' @ u),
      home_directory_path = (\<lambda>folder h. ''/home/u/'' @ folder @ ''/'' @ h)\<rparr>"

definition ex_world :: world where
  "ex_world =
     \<lparr>paths = [],
      remote = (\<lambda>u. if u = ''good'' then None else Some (OtherException ''GitCommandError'')),
      clones = [], logged = []\<rparr>"

section \<open>Gradients in raw-input space\<close>

text \<open>
  \<open>g\<close> is the gradient \<open>ge\<close>, taken with respect to the normalized input, expressed in
  raw-input space: \<open>ge\<close> multiplied elementwise by \<open>1 / divisor\<close>, which is \<open>ge\<close> divided
  elementwise by the divisor.
\<close>

definition in_raw_space :: "preprocessing \<Rightarrow> tensor \<Rightarrow> tensor \<Rightarrow> bool" where
  "in_raw_space p ge g =
     (tensor_mul ge (reciprocal (divisor p)) = Inr g \<and> tensor_div ge (divisor p) = Inr g)"

section \<open>Results and broadcasting\<close>

lemma rbind_Inr_iff: "rbind m f = Inr y \<longleftrightarrow> (\<exists>x. m = Inr x \<and> f x = Inr y)"
  by (cases m) (simp_all add: rbind_def)

lemma rbind_Inl [simp]: "rbind (Inl e) f = Inl e"
  by (simp add: rbind_def)

lemma rbind_Inr [simp]: "rbind (Inr x) f = f x"
  by (simp add: rbind_def)

lemma ravel_unravel: "i < prod_list ds \<Longrightarrow> ravel_rev ds (unravel_rev ds i) = i"
proof (induction ds arbitrary: i)
  case Nil
  then show ?case by simp
next
  case (Cons d ds)
  from Cons.prems have d0: "0 < d" by (cases "d = 0") auto
  from Cons.prems d0 have "i div d < prod_list ds"
    by (simp add: less_mult_imp_div_less mult.commute)
  then have "ravel_rev ds (unravel_rev ds (i div d)) = i div d" by (rule Cons.IH)
  then show ?case by (cases "d = 1") simp_all
qed

lemma digit_bound:
  fixes x r n k :: nat
  assumes "k < x" "r < n"
  shows "k + x * r < x * n"
proof -
  have "k + x * r < x + x * r" using assms by simp
  also have "\<dots> = x * Suc r" by simp
  also have "\<dots> \<le> x * n" using assms by (intro mult_le_mono2) simp
  finally show ?thesis .
qed

lemma ravel_rev_less:
  "bc_rev a t = Some s \<Longrightarrow> i < prod_list s \<Longrightarrow> ravel_rev t (unravel_rev s i) < prod_list t"
proof (induction a t arbitrary: s i rule: bc_rev.induct)
  case (1 ys)
  then show ?case by (simp add: ravel_unravel)
next
  case (2 x xs)
  then show ?case by simp
next
  case (3 x xs y ys)
  show ?case
  proof (cases "x = y \<or> y = 1")
    case True
    with "3.prems" obtain s' where s': "bc_rev xs ys = Some s'" "s = x # s'"
      by auto
    from "3.prems"(2) s' have x0: "0 < x" by (cases "x = 0") auto
    from "3.prems"(2) s' x0 have "i div x < prod_list s'"
      by (simp add: less_mult_imp_div_less mult.commute)
    with "3.IH"(1)[OF True s'(1)]
    have r: "ravel_rev ys (unravel_rev s' (i div x)) < prod_list ys" .
    show ?thesis
    proof (cases "y = 1")
      case True
      with r s' show ?thesis by simp
    next
      case False
      with True have "x = y" by simp
      with False r s' x0 show ?thesis by (simp add: digit_bound)
    qed
  next
    case False
    with "3.prems" obtain s' where s': "bc_rev xs ys = Some s'" "s = y # s'" "x = 1"
      by (auto split: if_splits)
    from "3.prems"(2) s' have y0: "0 < y" by (cases "y = 0") auto
    from "3.prems"(2) s' y0 have "i div y < prod_list s'"
      by (simp add: less_mult_imp_div_less mult.commute)
    with "3.IH"(2)[OF False s'(3) s'(1)]
    have r: "ravel_rev ys (unravel_rev s' (i div y)) < prod_list ys" .
    from False have "y \<noteq> 1" by simp
    with r s' y0 show ?thesis by (simp add: digit_bound)
  qed
qed

lemma bc_index_less:
  assumes "broadcast_shapes a t = Some s" "i < prod_list s"
  shows "bc_index s t i < prod_list t"
proof -
  from assms(1) obtain r where r: "bc_rev (rev a) (rev t) = Some r" "s = rev r"
    by (auto simp: broadcast_shapes_def)
  from assms(2) r have "i < prod_list r" by simp
  from ravel_rev_less[OF r(1) this] r show ?thesis
    by (simp add: bc_index_def)
qed

lemma mul_reciprocal:
  assumes "wf_tensor d"
  shows "tensor_mul g (reciprocal d) = tensor_div g d"
proof (cases "broadcast_shapes (shape g) (shape d)")
  case None
  then show ?thesis by (simp add: tensor_mul_def tensor_div_def binop_def reciprocal_def)
next
  case (Some s)
  have "\<And>i. i < prod_list s \<Longrightarrow>
          map (\<lambda>x. 1 / x) (data d) ! bc_index s (shape d) i = 1 / (data d ! bc_index s (shape d) i)"
    using bc_index_less[OF Some] assms by (simp add: wf_tensor_def)
  then show ?thesis using Some
    by (simp add: tensor_mul_def tensor_div_def binop_def reciprocal_def)
qed

lemma binop_Inr:
  "binop f a b = Inr c \<Longrightarrow>
     broadcast_shapes (shape a) (shape b) = Some (shape c) \<and> dtype c = dtype a"
  by (auto simp: binop_def split: option.splits)

lemma binop_broadcastable:
  "broadcastable_to (shape b) (shape a) \<Longrightarrow>
     \<exists>c. binop f a b = Inr c \<and> shape c = shape a \<and> dtype c = dtype a"
  by (simp add: binop_def broadcastable_to_def)

lemma binop_shape:
  "broadcastable_to (shape b) (shape a) \<Longrightarrow> binop f a b = Inr c \<Longrightarrow> shape c = shape a"
  by (auto simp: broadcastable_to_def dest: binop_Inr)

section \<open>Properties of the preprocessing transform\<close>

lemma process_input_Inr:
  assumes "process_input p x = Inr (px, dpdx)"
  shows "dpdx = reciprocal (divisor p)" and "dtype px = dtype x"
  using assms
  by (auto simp: process_input_def rbind_Inr_iff tensor_sub_def tensor_div_def dest!: binop_Inr)

lemma process_input_shape:
  assumes "process_input p x = Inr (px, dpdx)"
    and "broadcastable_to (shape (subtrahend p)) (shape x)"
    and "broadcastable_to (shape (divisor p)) (shape x)"
  shows "shape px = shape x"
proof -
  from assms(1) obtain y where y: "binop (-) x (subtrahend p) = Inr y"
    "binop (/) y (divisor p) = Inr px"
    by (auto simp: process_input_def rbind_Inr_iff tensor_sub_def tensor_div_def)
  from binop_shape[OF assms(2) y(1)] have "shape y = shape x" .
  with binop_shape[OF _ y(2)] assms(3) show ?thesis by simp
qed

lemma process_input_ok:
  assumes "broadcastable_to (shape (subtrahend p)) (shape x)"
    and "broadcastable_to (shape (divisor p)) (shape x)"
  shows "\<exists>px. process_input p x = Inr (px, reciprocal (divisor p)) \<and>
              shape px = shape x \<and> dtype px = dtype x"
proof -
  from binop_broadcastable[OF assms(1), of "(-)"] obtain y where
    y: "binop (-) x (subtrahend p) = Inr y" "shape y = shape x" "dtype y = dtype x" by blast
  from assms(2) y have "broadcastable_to (shape (divisor p)) (shape y)" by simp
  from binop_broadcastable[OF this, of "(/)"] obtain px where
    "binop (/) y (divisor p) = Inr px" "shape px = shape y" "dtype px = dtype y" by blast
  with y show ?thesis
    by (simp add: process_input_def tensor_sub_def tensor_div_def)
qed

lemma process_gradient_raw_space:
  assumes "wf_tensor (divisor p)"
    and "process_gradient (reciprocal (divisor p)) ge = Inr g"
  shows "in_raw_space p ge g"
  using assms mul_reciprocal[OF assms(1), of ge]
  by (simp add: in_raw_space_def process_gradient_def)

lemma process_gradient_dtype:
  "process_gradient sc ge = Inr g \<Longrightarrow> dtype g = dtype ge"
  by (auto simp: process_gradient_def tensor_mul_def dest: binop_Inr)

lemma process_gradient_shape:
  assumes "process_gradient (reciprocal d) ge = Inr g" "broadcastable_to (shape d) (shape ge)"
  shows "shape g = shape ge"
proof -
  from assms(2) have "broadcastable_to (shape (reciprocal d)) (shape ge)"
    by (simp add: reciprocal_def)
  from binop_shape[OF this] assms(1) show ?thesis
    by (simp add: process_gradient_def tensor_mul_def)
qed

lemma process_gradient_ok:
  assumes "broadcastable_to (shape d) (shape ge)"
  shows "\<exists>g. process_gradient (reciprocal d) ge = Inr g \<and> shape g = shape ge \<and> dtype g = dtype ge"
proof -
  from assms have "broadcastable_to (shape (reciprocal d)) (shape ge)"
    by (simp add: reciprocal_def)
  from binop_broadcastable[OF this, of "(*)"] show ?thesis
    by (simp add: process_gradient_def tensor_mul_def)
qed

lemma squeeze0_Inr: "squeeze0 t = Inr u \<Longrightarrow> shape t = 1 # shape u \<and> dtype u = dtype t \<and> data u = data t"
  by (auto simp: squeeze0_def split: list.splits if_splits)

lemma squeeze0_ok: "shape t = 1 # s \<Longrightarrow> squeeze0 t = Inr (t\<lparr>shape := s\<rparr>)"
  by (simp add: squeeze0_def)

lemma astype_simps [simp]:
  "shape (astype d t) = shape t" "dtype (astype d t) = d"
  by (simp_all add: astype_def)

lemma astype_float: "is_float d \<Longrightarrow> data (astype d t) = data t"
  by (simp add: astype_def)

lemma newaxis_simps [simp]:
  "shape (newaxis t) = 1 # shape t" "dtype (newaxis t) = dtype t" "data (newaxis t) = data t"
  by (simp_all add: newaxis_def)

section \<open>What the gradient operations return\<close>

lemma Keras_predictions_and_gradient_Inr:
  assumes "Keras_predictions_and_gradient m x l = Inr (p, g)"
  shows "\<exists>px P G ge. process_input (preprocessing m) x = Inr (px, reciprocal (divisor (preprocessing m)))
           \<and> k_pred_grad_fn m [newaxis px, newaxis l] = Inr [P, G]
           \<and> squeeze0 P = Inr p \<and> squeeze0 G = Inr ge
           \<and> process_gradient (reciprocal (divisor (preprocessing m))) ge = Inr g
           \<and> shape p = [Keras_num_classes m] \<and> shape g = shape x"
proof -
  from assms obtain px dpdx outs where
    pi: "process_input (preprocessing m) x = Inr (px, dpdx)"
    and fn: "k_pred_grad_fn m [newaxis px, newaxis l] = Inr outs"
    and rest: "(case outs of
          [predictions, gradient] \<Rightarrow>
            rbind (squeeze0 predictions) (\<lambda>predictions.
            rbind (squeeze0 gradient) (\<lambda>gradient.
            rbind (process_gradient dpdx gradient) (\<lambda>gradient.
              if shape predictions \<noteq> [Keras_num_classes m] then Inl AssertionError
              else if shape gradient \<noteq> shape x then Inl AssertionError
              else Inr (predictions, gradient))))
        | _ \<Rightarrow> Inl ValueError) = Inr (p, g)"
    by (auto simp: Keras_predictions_and_gradient_def Let_def rbind_Inr_iff)
  from rest obtain P G where outs: "outs = [P, G]"
    by (auto split: list.splits)
  from rest outs obtain ge where
    "squeeze0 P = Inr p" "squeeze0 G = Inr ge" "process_gradient dpdx ge = Inr g"
    "shape p = [Keras_num_classes m]" "shape g = shape x"
    by (auto simp: rbind_Inr_iff split: if_splits)
  with pi fn outs process_input_Inr(1)[OF pi] show ?thesis by auto
qed

lemma Keras_batch_gradients_Inr:
  assumes "Keras_batch_gradients m x l = Inr g"
  shows "\<exists>px ge. process_input (preprocessing m) x = Inr (px, reciprocal (divisor (preprocessing m)))
           \<and> k_batch_grad_fn m [px, l] = Inr [ge]
           \<and> process_gradient (reciprocal (divisor (preprocessing m))) ge = Inr g
           \<and> shape g = shape x"
proof -
  from assms obtain px dpdx outs where
    pi: "process_input (preprocessing m) x = Inr (px, dpdx)"
    and fn: "k_batch_grad_fn m [px, l] = Inr outs"
    and rest: "(case outs of
         [g] \<Rightarrow>
           rbind (process_gradient dpdx g) (\<lambda>g.
             if shape g = shape x then Inr g else Inl AssertionError)
       | _ \<Rightarrow> Inl ValueError) = Inr g"
    by (auto simp: Keras_batch_gradients_def rbind_Inr_iff)
  from rest obtain ge where outs: "outs = [ge]"
    by (auto split: list.splits)
  from rest outs have "process_gradient dpdx ge = Inr g" "shape g = shape x"
    by (auto simp: rbind_Inr_iff split: if_splits)
  with pi fn outs process_input_Inr(1)[OF pi] show ?thesis by auto
qed

lemma Keras_batch_backward_Inr:
  assumes "Keras_batch_backward m u x = Inr g"
  shows "ndim u = 2 \<and>
         (\<exists>px ge. process_input (preprocessing m) x = Inr (px, reciprocal (divisor (preprocessing m)))
           \<and> k_bw_grad_fn m [u, px] = Inr [ge]
           \<and> process_gradient (reciprocal (divisor (preprocessing m))) ge = Inr g
           \<and> shape g = shape x)"
proof -
  from assms have n: "ndim u = 2"
    by (auto simp: Keras_batch_backward_def split: if_splits)
  with assms obtain px dpdx outs where
    pi: "process_input (preprocessing m) x = Inr (px, dpdx)"
    and fn: "k_bw_grad_fn m [u, px] = Inr outs"
    and rest: "(case outs of
         [g] \<Rightarrow>
           rbind (process_gradient dpdx g) (\<lambda>g.
             if shape g = shape x then Inr g else Inl AssertionError)
       | _ \<Rightarrow> Inl ValueError) = Inr g"
    by (auto simp: Keras_batch_backward_def rbind_Inr_iff)
  from rest obtain ge where outs: "outs = [ge]"
    by (auto split: list.splits)
  from rest outs have "process_gradient dpdx ge = Inr g" "shape g = shape x"
    by (auto simp: rbind_Inr_iff split: if_splits)
  with n pi fn outs process_input_Inr(1)[OF pi] show ?thesis by auto
qed

lemma Lasagne_predictions_and_gradient_Inr:
  assumes "Lasagne_predictions_and_gradient m x l = Inr (p, g)"
  shows "\<exists>px P G ge. process_input (preprocessing m) x = Inr (px, reciprocal (divisor (preprocessing m)))
           \<and> l_predictions_and_gradient_fn m [newaxis px, newaxis (astype Int32 l)] = Inr [P, G]
           \<and> squeeze0 P = Inr p \<and> squeeze0 G = Inr ge
           \<and> process_gradient (reciprocal (divisor (preprocessing m))) (astype (dtype x) ge) = Inr g
           \<and> map Some (shape p) = [Lasagne_num_classes m]
           \<and> shape g = shape x \<and> dtype g = dtype x"
proof -
  from assms obtain px dpdx outs where
    pi: "process_input (preprocessing m) x = Inr (px, dpdx)"
    and fn: "l_predictions_and_gradient_fn m [newaxis px, newaxis (astype Int32 l)] = Inr outs"
    and rest: "(case outs of
            [predictions, gradient] \<Rightarrow>
              rbind (squeeze0 predictions) (\<lambda>predictions.
              rbind (squeeze0 gradient) (\<lambda>gradient.
                rbind (process_gradient dpdx (astype (dtype px) gradient)) (\<lambda>gradient.
                  if map Some (shape predictions) \<noteq> [Lasagne_num_classes m]
                  then Inl AssertionError
                  else if shape gradient \<noteq> shape x then Inl AssertionError
                  else if dtype gradient \<noteq> dtype px then Inl AssertionError
                  else Inr (predictions, gradient))))
          | _ \<Rightarrow> Inl ValueError) = Inr (p, g)"
    by (auto simp: Lasagne_predictions_and_gradient_def Let_def rbind_Inr_iff)
  from rest obtain P G where outs: "outs = [P, G]"
    by (auto split: list.splits)
  from rest outs obtain ge where
    "squeeze0 P = Inr p" "squeeze0 G = Inr ge"
    "process_gradient dpdx (astype (dtype px) ge) = Inr g"
    "map Some (shape p) = [Lasagne_num_classes m]" "shape g = shape x" "dtype g = dtype px"
    by (auto simp: rbind_Inr_iff Let_def split: if_splits)
  with pi fn outs process_input_Inr[OF pi] show ?thesis by auto
qed

lemma Lasagne_gradient_one_Inr:
  assumes "Lasagne_gradient_one m x l = Inr g"
  shows "\<exists>px G ge. process_input (preprocessing m) x = Inr (px, reciprocal (divisor (preprocessing m)))
           \<and> l_gradient_fn m [newaxis px, newaxis (astype Int32 l)] = Inr G
           \<and> squeeze0 G = Inr ge
           \<and> process_gradient (reciprocal (divisor (preprocessing m))) (astype (dtype x) ge) = Inr g
           \<and> shape g = shape x \<and> dtype g = dtype x"
proof -
  from assms obtain px dpdx G ge where
    pi: "process_input (preprocessing m) x = Inr (px, dpdx)"
    and fn: "l_gradient_fn m [newaxis px, newaxis (astype Int32 l)] = Inr G"
    and sq: "squeeze0 G = Inr ge"
    and pg: "process_gradient dpdx (astype (dtype px) ge) = Inr g"
    and sh: "shape g = shape x" "dtype g = dtype px"
    by (auto simp: Lasagne_gradient_one_def Let_def rbind_Inr_iff split: if_splits)
  with process_input_Inr[OF pi] show ?thesis by auto
qed

lemma Lasagne_backward_one_Inr:
  assumes "Lasagne_backward_one m u x = Inr g"
  shows "ndim u = 1 \<and>
         (\<exists>px G ge. process_input (preprocessing m) x = Inr (px, reciprocal (divisor (preprocessing m)))
           \<and> l_bw_gradient_fn m [newaxis u, newaxis px] = Inr G
           \<and> squeeze0 G = Inr ge
           \<and> process_gradient (reciprocal (divisor (preprocessing m))) (astype (dtype x) ge) = Inr g
           \<and> shape g = shape x \<and> dtype g = dtype x)"
proof -
  from assms have n: "ndim u = 1"
    by (auto simp: Lasagne_backward_one_def split: if_splits)
  with assms obtain px dpdx G ge where
    pi: "process_input (preprocessing m) x = Inr (px, dpdx)"
    and fn: "l_bw_gradient_fn m [newaxis u, newaxis px] = Inr G"
    and sq: "squeeze0 G = Inr ge"
    and pg: "process_gradient dpdx (astype (dtype px) ge) = Inr g"
    and sh: "shape g = shape x" "dtype g = dtype px"
    by (auto simp: Lasagne_backward_one_def Let_def rbind_Inr_iff split: if_splits)
  with n process_input_Inr[OF pi] show ?thesis by auto
qed

lemma Lasagne_batch_gradients_Inr:
  assumes "Lasagne_batch_gradients m xs ls = Inr r"
  shows "\<exists>x l g. shape0 xs = Inr 1 \<and> shape0 ls = Inr 1 \<and> index0 xs = Inr x \<and> index0 ls = Inr l
           \<and> Lasagne_gradient_one m x l = Inr g \<and> r = newaxis g"
  using assms
  by (auto simp: Lasagne_batch_gradients_def rbind_Inr_iff split: if_splits)

lemma Lasagne_batch_backward_Inr:
  assumes "Lasagne_batch_backward m us xs = Inr r"
  shows "\<exists>x u g. shape0 xs = Inr 1 \<and> shape0 us = Inr 1 \<and> index0 us = Inr u \<and> index0 xs = Inr x
           \<and> Lasagne_backward_one m u x = Inr g \<and> r = newaxis g"
  using assms
  by (auto simp: Lasagne_batch_backward_def rbind_Inr_iff split: if_splits)

lemma index0_Inr: "index0 t = Inr u \<Longrightarrow> shape t \<noteq> [] \<and> shape u = tl (shape t) \<and> dtype u = dtype t"
  by (auto simp: index0_def split: list.splits if_splits)

lemma shape0_index0:
  "shape0 t = Inr 1 \<Longrightarrow> index0 t = Inr u \<Longrightarrow> shape t = 1 # shape u"
  by (auto simp: shape0_def index0_def split: list.splits if_splits)

lemma MXNet_predictions_and_gradient_Inr:
  assumes "MXNet_predictions_and_gradient m x l = Inr (p, g)"
  shows "\<exists>px logits G ge. process_input (preprocessing m) x = Inr (px, reciprocal (divisor (preprocessing m)))
           \<and> forward (mx_block m) (newaxis px) = Inr logits
           \<and> cross_entropy_backward (mx_block m) (newaxis px) (newaxis l) = Inr G
           \<and> squeeze0 logits = Inr p \<and> squeeze0 G = Inr ge
           \<and> process_gradient (reciprocal (divisor (preprocessing m))) ge = Inr g"
proof -
  from assms obtain px dpdx logits G ge where
    pi: "process_input (preprocessing m) x = Inr (px, dpdx)"
    and "forward (mx_block m) (newaxis px) = Inr logits"
    and "cross_entropy_backward (mx_block m) (newaxis px) (newaxis l) = Inr G"
    and "squeeze0 logits = Inr p" "squeeze0 G = Inr ge"
    and "process_gradient dpdx ge = Inr g"
    by (auto simp: MXNet_predictions_and_gradient_def Let_def rbind_Inr_iff)
  with process_input_Inr(1)[OF pi] show ?thesis by auto
qed

lemma MXNet_batch_gradients_Inr:
  assumes "MXNet_batch_gradients m x l = Inr g"
  shows "\<exists>px ge. process_input (preprocessing m) x = Inr (px, reciprocal (divisor (preprocessing m)))
           \<and> cross_entropy_backward (mx_block m) px l = Inr ge
           \<and> process_gradient (reciprocal (divisor (preprocessing m))) ge = Inr g"
proof -
  from assms obtain px dpdx ge where
    pi: "process_input (preprocessing m) x = Inr (px, dpdx)"
    and "cross_entropy_backward (mx_block m) px l = Inr ge"
    and "process_gradient dpdx ge = Inr g"
    by (auto simp: MXNet_batch_gradients_def rbind_Inr_iff)
  with process_input_Inr(1)[OF pi] show ?thesis by auto
qed

lemma MXNet_batch_backward_Inr:
  assumes "MXNet_batch_backward m u x = Inr g"
  shows "ndim u = 2 \<and>
         (\<exists>px logits ge. process_input (preprocessing m) x = Inr (px, reciprocal (divisor (preprocessing m)))
           \<and> forward (mx_block m) px = Inr logits \<and> shape u = shape logits
           \<and> backward (mx_block m) px u = Inr ge
           \<and> process_gradient (reciprocal (divisor (preprocessing m))) ge = Inr g)"
proof -
  from assms have n: "ndim u = 2"
    by (auto simp: MXNet_batch_backward_def split: if_splits)
  with assms obtain px dpdx logits ge where
    pi: "process_input (preprocessing m) x = Inr (px, dpdx)"
    and "forward (mx_block m) px = Inr logits" "shape u = shape logits"
    and "backward (mx_block m) px u = Inr ge"
    and "process_gradient dpdx ge = Inr g"
    by (auto simp: MXNet_batch_backward_def rbind_Inr_iff split: if_splits)
  with n process_input_Inr(1)[OF pi] show ?thesis by auto
qed

section \<open>Sample runs\<close>

lemma upt_2: "[0..<2] = [0, 1]"
  by (simp add: upt_rec)

lemma upt_4: "[0..<4] = [0, 1, 2, 3]"
  by (simp add: upt_rec)

lemmas run_defs =
  ex_prep_def ex_image_def ex_image64_def ex_images_def ex_label_def ex_labels_def
  ex_upstream_def toy_logits_def toy_grad_def
  process_input_def process_gradient_def tensor_sub_def tensor_div_def tensor_mul_def
  binop_def broadcast_shapes_def bc_index_def scalar_def reciprocal_def newaxis_def
  squeeze0_def index0_def shape0_def astype_def ndim_def upt_2

lemma wf_ex_prep: "wf_tensor (divisor ex_prep)"
  by (simp add: wf_tensor_def ex_prep_def scalar_def)

lemma ex_keras_pag:
  "Keras_predictions_and_gradient ex_keras ex_image ex_label =
     Inr (\<lparr>shape = [3], dtype = Float32, data = [0, 1, 2]\<rparr>,
          \<lparr>shape = [2], dtype = Float32, data = [2, 4]\<rparr>)"
  by (simp add: Keras_predictions_and_gradient_def ex_keras_def Keras_num_classes_def run_defs)

lemma ex_keras_pag64:
  "Keras_predictions_and_gradient ex_keras ex_image64 ex_label =
     Inr (\<lparr>shape = [3], dtype = Float32, data = [0, 1, 2]\<rparr>,
          \<lparr>shape = [2], dtype = Float32, data = [2, 4]\<rparr>)"
  by (simp add: Keras_predictions_and_gradient_def ex_keras_def Keras_num_classes_def run_defs)

lemma ex_keras_bg:
  "Keras_batch_gradients ex_keras ex_images ex_labels =
     Inr \<lparr>shape = [1, 2], dtype = Float32, data = [2, 4]\<rparr>"
  by (simp add: Keras_batch_gradients_def ex_keras_def run_defs)

lemma ex_keras_bb:
  "Keras_batch_backward ex_keras ex_upstream ex_images =
     Inr \<lparr>shape = [1, 2], dtype = Float32, data = [2, 4]\<rparr>"
  by (simp add: Keras_batch_backward_def ex_keras_def run_defs)


lemma ex_lasagne_pag:
  "Lasagne_predictions_and_gradient ex_lasagne ex_image ex_label =
     Inr (\<lparr>shape = [3], dtype = Float32, data = [0, 1, 2]\<rparr>,
          \<lparr>shape = [2], dtype = Float32, data = [2, 4]\<rparr>)"
  by (simp add: Lasagne_predictions_and_gradient_def ex_lasagne_def Lasagne_num_classes_def run_defs)

lemma ex_lasagne_bg:
  "Lasagne_batch_gradients ex_lasagne ex_images ex_labels =
     Inr \<lparr>shape = [1, 2], dtype = Float32, data = [2, 4]\<rparr>"
  by (simp add: Lasagne_batch_gradients_def Lasagne_gradient_one_def ex_lasagne_def run_defs)

lemma ex_lasagne_bb:
  "Lasagne_batch_backward ex_lasagne ex_upstream ex_images =
     Inr \<lparr>shape = [1, 2], dtype = Float32, data = [2, 4]\<rparr>"
  by (simp add: Lasagne_batch_backward_def Lasagne_backward_one_def ex_lasagne_def run_defs)


lemmas mx_defs = ex_mxnet_def ex_mxnet10_def MXNetGluonModel_init_def base_init_def toy_block_def
  MXNet_num_classes_def

lemma ex_mxnet_pag:
  "MXNet_predictions_and_gradient ex_mxnet ex_image ex_label =
     Inr (\<lparr>shape = [3], dtype = Float32, data = [0, 1, 2]\<rparr>,
          \<lparr>shape = [2], dtype = Float32, data = [2, 4]\<rparr>)"
  by (simp add: MXNet_predictions_and_gradient_def mx_defs run_defs)

lemma ex_mxnet10_pag:
  "MXNet_predictions_and_gradient ex_mxnet10 ex_image64 ex_label =
     Inr (\<lparr>shape = [3], dtype = Float32, data = [0, 1, 2]\<rparr>,
          \<lparr>shape = [2], dtype = Float32, data = [2, 4]\<rparr>)"
  by (simp add: MXNet_predictions_and_gradient_def mx_defs run_defs)

lemma ex_mxnet_bg:
  "MXNet_batch_gradients ex_mxnet ex_images ex_labels =
     Inr \<lparr>shape = [1, 2], dtype = Float32, data = [2, 4]\<rparr>"
  by (simp add: MXNet_batch_gradients_def mx_defs run_defs)

lemma ex_mxnet_bb:
  "MXNet_batch_backward ex_mxnet ex_upstream ex_images =
     Inr \<lparr>shape = [1, 2], dtype = Float32, data = [2, 4]\<rparr>"
  by (simp add: MXNet_batch_backward_def mx_defs run_defs)



lemma ex_mxnet_grid_pag:
  "MXNet_predictions_and_gradient ex_mxnet_grid ex_image ex_label =
     Inr (\<lparr>shape = [3], dtype = Float32, data = [0, 1, 2]\<rparr>,
          \<lparr>shape = [2, 2], dtype = Float32, data = [12, 5, 3 / 4, 5 / 16]\<rparr>)"
  by (simp add: MXNet_predictions_and_gradient_def ex_mxnet_grid_def ex_prep_grid_def
      MXNetGluonModel_init_def base_init_def toy_block_def run_defs upt_4)

lemma ex_lasagne_half_pag:
  "Lasagne_predictions_and_gradient ex_lasagne_half ex_image_int ex_label =
     Inr (\<lparr>shape = [3], dtype = Float32, data = [0, 1, 2]\<rparr>,
          \<lparr>shape = [2], dtype = Int64, data = [0, 1]\<rparr>)"
  by (simp add: Lasagne_predictions_and_gradient_def ex_lasagne_half_def ex_lasagne_def
      ex_prep_default_def ex_image_int_def half_grad_def Lasagne_num_classes_def trunc_def run_defs)

lemma half_grad_scaled:
  "tensor_mul \<lparr>shape = [2], dtype = Float32, data = [1 / 2, 3 / 2]\<rparr>
       (reciprocal (divisor ex_prep_default))
     = Inr \<lparr>shape = [2], dtype = Float32, data = [1 / 2, 3 / 2]\<rparr>"
  by (simp add: ex_prep_default_def run_defs)

section \<open>Every returned gradient is in raw-input space\<close>

lemma mxnet_gradient_shape:
  assumes "process_input p x = Inr (px, dpdx)"
    and "process_gradient (reciprocal (divisor p)) ge = Inr g"
    and "shape ge = shape px"
    and "broadcastable_to (shape (subtrahend p)) (shape x)"
    and "broadcastable_to (shape (divisor p)) (shape x)"
  shows "shape g = shape x"
proof -
  from process_input_shape[OF assms(1,4,5)] have "shape px = shape x" .
  with assms(3,5) have "broadcastable_to (shape (divisor p)) (shape ge)" by simp
  from process_gradient_shape[OF assms(2) this] assms(3) \<open>shape px = shape x\<close>
  show ?thesis by simp
qed

text \<open>
  C1, as the code has it.  For each of the three adapters and each of
  \<open>predictions_and_gradient\<close>, \<open>batch_gradients\<close> and \<open>batch_backward\<close>: whenever the
  operation returns a gradient, the engine was run on the normalized input and
  returned a gradient \<open>ge\<close> there, and the gradient handed to the caller is a gradient
  multiplied elementwise by \<open>1 / divisor\<close>, that is divided by the divisor: in the
  Keras and MXNet adapters \<open>ge\<close> itself, in the Lasagne adapter \<open>ge\<close> cast to the dtype
  of the image first, which leaves the values unchanged when that dtype is a floating
  one.  The Keras and Lasagne adapters return it only in the shape of the raw input;
  the MXNet adapter, which asserts no shape, returns it in that shape when the block's
  gradient has the shape of the array it differentiates at and the parameters
  broadcast to the raw input.
\<close>

theorem gradients_leave_in_raw_space:
  assumes "wf_tensor (divisor (preprocessing km))"
    and "wf_tensor (divisor (preprocessing lm))"
    and "wf_tensor (divisor (preprocessing mm))"
  shows
  "(Keras_predictions_and_gradient km x l = Inr (kp, kg) \<longrightarrow>
      (\<exists>px P G ge.
         process_input (preprocessing km) x = Inr (px, reciprocal (divisor (preprocessing km)))
         \<and> k_pred_grad_fn km [newaxis px, newaxis l] = Inr [P, G] \<and> squeeze0 G = Inr ge
         \<and> in_raw_space (preprocessing km) ge kg \<and> shape kg = shape x))
   \<and> (Keras_batch_gradients km xs ls = Inr kgs \<longrightarrow>
      (\<exists>px ge.
         process_input (preprocessing km) xs = Inr (px, reciprocal (divisor (preprocessing km)))
         \<and> k_batch_grad_fn km [px, ls] = Inr [ge]
         \<and> in_raw_space (preprocessing km) ge kgs \<and> shape kgs = shape xs))
   \<and> (Keras_batch_backward km us xs = Inr kgb \<longrightarrow>
      (\<exists>px ge.
         process_input (preprocessing km) xs = Inr (px, reciprocal (divisor (preprocessing km)))
         \<and> k_bw_grad_fn km [us, px] = Inr [ge]
         \<and> in_raw_space (preprocessing km) ge kgb \<and> shape kgb = shape xs))
   \<and> (Lasagne_predictions_and_gradient lm x l = Inr (lp, lg) \<longrightarrow>
      (\<exists>px P G ge.
         process_input (preprocessing lm) x = Inr (px, reciprocal (divisor (preprocessing lm)))
         \<and> l_predictions_and_gradient_fn lm [newaxis px, newaxis (astype Int32 l)] = Inr [P, G]
         \<and> squeeze0 G = Inr ge
         \<and> in_raw_space (preprocessing lm) (astype (dtype x) ge) lg
         \<and> (is_float (dtype x) \<longrightarrow> data (astype (dtype x) ge) = data ge)
         \<and> shape lg = shape x))
   \<and> (Lasagne_batch_gradients lm xs ls = Inr lgs \<longrightarrow>
      (\<exists>x1 l1 px G ge g1.
         index0 xs = Inr x1 \<and> index0 ls = Inr l1
         \<and> process_input (preprocessing lm) x1 = Inr (px, reciprocal (divisor (preprocessing lm)))
         \<and> l_gradient_fn lm [newaxis px, newaxis (astype Int32 l1)] = Inr G
         \<and> squeeze0 G = Inr ge
         \<and> in_raw_space (preprocessing lm) (astype (dtype xs) ge) g1
         \<and> (is_float (dtype xs) \<longrightarrow> data (astype (dtype xs) ge) = data ge)
         \<and> lgs = newaxis g1 \<and> shape lgs = shape xs))
   \<and> (Lasagne_batch_backward lm us xs = Inr lgb \<longrightarrow>
      (\<exists>x1 u1 px G ge g1.
         index0 xs = Inr x1 \<and> index0 us = Inr u1
         \<and> process_input (preprocessing lm) x1 = Inr (px, reciprocal (divisor (preprocessing lm)))
         \<and> l_bw_gradient_fn lm [newaxis u1, newaxis px] = Inr G
         \<and> squeeze0 G = Inr ge
         \<and> in_raw_space (preprocessing lm) (astype (dtype xs) ge) g1
         \<and> (is_float (dtype xs) \<longrightarrow> data (astype (dtype xs) ge) = data ge)
         \<and> lgb = newaxis g1 \<and> shape lgb = shape xs))
   \<and> (MXNet_predictions_and_gradient mm x l = Inr (mp, mg) \<longrightarrow>
      (\<exists>px G ge.
         process_input (preprocessing mm) x = Inr (px, reciprocal (divisor (preprocessing mm)))
         \<and> cross_entropy_backward (mx_block mm) (newaxis px) (newaxis l) = Inr G
         \<and> squeeze0 G = Inr ge
         \<and> in_raw_space (preprocessing mm) ge mg
         \<and> (shape G = shape (newaxis px)
              \<and> broadcastable_to (shape (subtrahend (preprocessing mm))) (shape x)
              \<and> broadcastable_to (shape (divisor (preprocessing mm))) (shape x)
             \<longrightarrow> shape mg = shape x)))
   \<and> (MXNet_batch_gradients mm xs ls = Inr mgs \<longrightarrow>
      (\<exists>px ge.
         process_input (preprocessing mm) xs = Inr (px, reciprocal (divisor (preprocessing mm)))
         \<and> cross_entropy_backward (mx_block mm) px ls = Inr ge
         \<and> in_raw_space (preprocessing mm) ge mgs
         \<and> (shape ge = shape px
              \<and> broadcastable_to (shape (subtrahend (preprocessing mm))) (shape xs)
              \<and> broadcastable_to (shape (divisor (preprocessing mm))) (shape xs)
             \<longrightarrow> shape mgs = shape xs)))
   \<and> (MXNet_batch_backward mm us xs = Inr mgb \<longrightarrow>
      (\<exists>px ge.
         process_input (preprocessing mm) xs = Inr (px, reciprocal (divisor (preprocessing mm)))
         \<and> backward (mx_block mm) px us = Inr ge
         \<and> in_raw_space (preprocessing mm) ge mgb
         \<and> (shape ge = shape px
              \<and> broadcastable_to (shape (subtrahend (preprocessing mm))) (shape xs)
              \<and> broadcastable_to (shape (divisor (preprocessing mm))) (shape xs)
             \<longrightarrow> shape mgb = shape xs)))"
proof (intro conjI impI)
  assume "Keras_predictions_and_gradient km x l = Inr (kp, kg)"
  from Keras_predictions_and_gradient_Inr[OF this]
  show "\<exists>px P G ge.
         process_input (preprocessing km) x = Inr (px, reciprocal (divisor (preprocessing km)))
         \<and> k_pred_grad_fn km [newaxis px, newaxis l] = Inr [P, G] \<and> squeeze0 G = Inr ge
         \<and> in_raw_space (preprocessing km) ge kg \<and> shape kg = shape x"
    using process_gradient_raw_space[OF assms(1)] by blast
next
  assume "Keras_batch_gradients km xs ls = Inr kgs"
  from Keras_batch_gradients_Inr[OF this]
  show "\<exists>px ge.
         process_input (preprocessing km) xs = Inr (px, reciprocal (divisor (preprocessing km)))
         \<and> k_batch_grad_fn km [px, ls] = Inr [ge]
         \<and> in_raw_space (preprocessing km) ge kgs \<and> shape kgs = shape xs"
    using process_gradient_raw_space[OF assms(1)] by blast
next
  assume "Keras_batch_backward km us xs = Inr kgb"
  from Keras_batch_backward_Inr[OF this]
  show "\<exists>px ge.
         process_input (preprocessing km) xs = Inr (px, reciprocal (divisor (preprocessing km)))
         \<and> k_bw_grad_fn km [us, px] = Inr [ge]
         \<and> in_raw_space (preprocessing km) ge kgb \<and> shape kgb = shape xs"
    using process_gradient_raw_space[OF assms(1)] by blast
next
  assume "Lasagne_predictions_and_gradient lm x l = Inr (lp, lg)"
  from Lasagne_predictions_and_gradient_Inr[OF this]
  show "\<exists>px P G ge.
         process_input (preprocessing lm) x = Inr (px, reciprocal (divisor (preprocessing lm)))
         \<and> l_predictions_and_gradient_fn lm [newaxis px, newaxis (astype Int32 l)] = Inr [P, G]
         \<and> squeeze0 G = Inr ge
         \<and> in_raw_space (preprocessing lm) (astype (dtype x) ge) lg
         \<and> (is_float (dtype x) \<longrightarrow> data (astype (dtype x) ge) = data ge)
         \<and> shape lg = shape x"
    using process_gradient_raw_space[OF assms(2)] astype_float by blast
next
  assume "Lasagne_batch_gradients lm xs ls = Inr lgs"
  from Lasagne_batch_gradients_Inr[OF this] obtain x1 l1 g1 where
    a: "shape0 xs = Inr 1" "index0 xs = Inr x1" "index0 ls = Inr l1"
    "Lasagne_gradient_one lm x1 l1 = Inr g1" "lgs = newaxis g1" by blast
  from Lasagne_gradient_one_Inr[OF a(4)] obtain px G ge where
    b: "process_input (preprocessing lm) x1 = Inr (px, reciprocal (divisor (preprocessing lm)))"
    "l_gradient_fn lm [newaxis px, newaxis (astype Int32 l1)] = Inr G"
    "squeeze0 G = Inr ge"
    "process_gradient (reciprocal (divisor (preprocessing lm))) (astype (dtype x1) ge) = Inr g1"
    "shape g1 = shape x1" by blast
  from index0_Inr[OF a(2)] have d: "dtype x1 = dtype xs" by simp
  from shape0_index0[OF a(1,2)] a(5) b(5) have s: "shape lgs = shape xs" by simp
  from process_gradient_raw_space[OF assms(2) b(4)] d
  have r: "in_raw_space (preprocessing lm) (astype (dtype xs) ge) g1" by simp
  from a b r s astype_float
  show "\<exists>x1 l1 px G ge g1.
         index0 xs = Inr x1 \<and> index0 ls = Inr l1
         \<and> process_input (preprocessing lm) x1 = Inr (px, reciprocal (divisor (preprocessing lm)))
         \<and> l_gradient_fn lm [newaxis px, newaxis (astype Int32 l1)] = Inr G
         \<and> squeeze0 G = Inr ge
         \<and> in_raw_space (preprocessing lm) (astype (dtype xs) ge) g1
         \<and> (is_float (dtype xs) \<longrightarrow> data (astype (dtype xs) ge) = data ge)
         \<and> lgs = newaxis g1 \<and> shape lgs = shape xs"
    by blast
next
  assume "Lasagne_batch_backward lm us xs = Inr lgb"
  from Lasagne_batch_backward_Inr[OF this] obtain x1 u1 g1 where
    a: "shape0 xs = Inr 1" "index0 xs = Inr x1" "index0 us = Inr u1"
    "Lasagne_backward_one lm u1 x1 = Inr g1" "lgb = newaxis g1" by blast
  from Lasagne_backward_one_Inr[OF a(4)] obtain px G ge where
    b: "process_input (preprocessing lm) x1 = Inr (px, reciprocal (divisor (preprocessing lm)))"
    "l_bw_gradient_fn lm [newaxis u1, newaxis px] = Inr G"
    "squeeze0 G = Inr ge"
    "process_gradient (reciprocal (divisor (preprocessing lm))) (astype (dtype x1) ge) = Inr g1"
    "shape g1 = shape x1" by blast
  from index0_Inr[OF a(2)] have d: "dtype x1 = dtype xs" by simp
  from shape0_index0[OF a(1,2)] a(5) b(5) have s: "shape lgb = shape xs" by simp
  from process_gradient_raw_space[OF assms(2) b(4)] d
  have r: "in_raw_space (preprocessing lm) (astype (dtype xs) ge) g1" by simp
  from a b r s astype_float
  show "\<exists>x1 u1 px G ge g1.
         index0 xs = Inr x1 \<and> index0 us = Inr u1
         \<and> process_input (preprocessing lm) x1 = Inr (px, reciprocal (divisor (preprocessing lm)))
         \<and> l_bw_gradient_fn lm [newaxis u1, newaxis px] = Inr G
         \<and> squeeze0 G = Inr ge
         \<and> in_raw_space (preprocessing lm) (astype (dtype xs) ge) g1
         \<and> (is_float (dtype xs) \<longrightarrow> data (astype (dtype xs) ge) = data ge)
         \<and> lgb = newaxis g1 \<and> shape lgb = shape xs"
    by blast
next
  assume "MXNet_predictions_and_gradient mm x l = Inr (mp, mg)"
  from MXNet_predictions_and_gradient_Inr[OF this] obtain px G ge where
    b: "process_input (preprocessing mm) x = Inr (px, reciprocal (divisor (preprocessing mm)))"
    "cross_entropy_backward (mx_block mm) (newaxis px) (newaxis l) = Inr G"
    "squeeze0 G = Inr ge"
    "process_gradient (reciprocal (divisor (preprocessing mm))) ge = Inr mg" by blast
  have "shape mg = shape x"
    if "shape G = shape (newaxis px)"
      "broadcastable_to (shape (subtrahend (preprocessing mm))) (shape x)"
      "broadcastable_to (shape (divisor (preprocessing mm))) (shape x)"
  proof -
    from squeeze0_Inr[OF b(3)] that(1) have "shape ge = shape px" by simp
    from mxnet_gradient_shape[OF b(1) b(4) this that(2,3)] show ?thesis .
  qed
  with b process_gradient_raw_space[OF assms(3) b(4)]
  show "\<exists>px G ge.
         process_input (preprocessing mm) x = Inr (px, reciprocal (divisor (preprocessing mm)))
         \<and> cross_entropy_backward (mx_block mm) (newaxis px) (newaxis l) = Inr G
         \<and> squeeze0 G = Inr ge
         \<and> in_raw_space (preprocessing mm) ge mg
         \<and> (shape G = shape (newaxis px)
              \<and> broadcastable_to (shape (subtrahend (preprocessing mm))) (shape x)
              \<and> broadcastable_to (shape (divisor (preprocessing mm))) (shape x)
             \<longrightarrow> shape mg = shape x)"
    by blast
next
  assume "MXNet_batch_gradients mm xs ls = Inr mgs"
  from MXNet_batch_gradients_Inr[OF this] obtain px ge where
    b: "process_input (preprocessing mm) xs = Inr (px, reciprocal (divisor (preprocessing mm)))"
    "cross_entropy_backward (mx_block mm) px ls = Inr ge"
    "process_gradient (reciprocal (divisor (preprocessing mm))) ge = Inr mgs" by blast
  from b process_gradient_raw_space[OF assms(3) b(3)] mxnet_gradient_shape[OF b(1) b(3)]
  show "\<exists>px ge.
         process_input (preprocessing mm) xs = Inr (px, reciprocal (divisor (preprocessing mm)))
         \<and> cross_entropy_backward (mx_block mm) px ls = Inr ge
         \<and> in_raw_space (preprocessing mm) ge mgs
         \<and> (shape ge = shape px
              \<and> broadcastable_to (shape (subtrahend (preprocessing mm))) (shape xs)
              \<and> broadcastable_to (shape (divisor (preprocessing mm))) (shape xs)
             \<longrightarrow> shape mgs = shape xs)"
    by blast
next
  assume "MXNet_batch_backward mm us xs = Inr mgb"
  from MXNet_batch_backward_Inr[OF this] obtain px ge where
    b: "process_input (preprocessing mm) xs = Inr (px, reciprocal (divisor (preprocessing mm)))"
    "backward (mx_block mm) px us = Inr ge"
    "process_gradient (reciprocal (divisor (preprocessing mm))) ge = Inr mgb" by blast
  from b process_gradient_raw_space[OF assms(3) b(3)] mxnet_gradient_shape[OF b(1) b(3)]
  show "\<exists>px ge.
         process_input (preprocessing mm) xs = Inr (px, reciprocal (divisor (preprocessing mm)))
         \<and> backward (mx_block mm) px us = Inr ge
         \<and> in_raw_space (preprocessing mm) ge mgb
         \<and> (shape ge = shape px
              \<and> broadcastable_to (shape (subtrahend (preprocessing mm))) (shape xs)
              \<and> broadcastable_to (shape (divisor (preprocessing mm))) (shape xs)
             \<longrightarrow> shape mgb = shape xs)"
    by blast
qed


lemma ex_preprocessing [simp]:
  "preprocessing ex_keras = ex_prep" "preprocessing ex_lasagne = ex_prep"
  "preprocessing ex_mxnet = ex_prep" "preprocessing ex_mxnet10 = ex_prep"
  by (simp_all add: ex_keras_def ex_lasagne_def ex_mxnet_def ex_mxnet10_def
      MXNetGluonModel_init_def base_init_def)

theorem gradients_leave_in_raw_space_witness:
  "wf_tensor (divisor ex_prep)
   \<and> Keras_predictions_and_gradient ex_keras ex_image ex_label =
       Inr (\<lparr>shape = [3], dtype = Float32, data = [0, 1, 2]\<rparr>,
            \<lparr>shape = [2], dtype = Float32, data = [2, 4]\<rparr>)
   \<and> (\<exists>ge. in_raw_space ex_prep ge \<lparr>shape = [2], dtype = Float32, data = [2, 4]\<rparr>)
   \<and> Keras_batch_gradients ex_keras ex_images ex_labels =
       Inr \<lparr>shape = [1, 2], dtype = Float32, data = [2, 4]\<rparr>
   \<and> Keras_batch_backward ex_keras ex_upstream ex_images =
       Inr \<lparr>shape = [1, 2], dtype = Float32, data = [2, 4]\<rparr>
   \<and> (\<exists>ge. in_raw_space ex_prep ge \<lparr>shape = [1, 2], dtype = Float32, data = [2, 4]\<rparr>)
   \<and> Lasagne_predictions_and_gradient ex_lasagne ex_image ex_label =
       Inr (\<lparr>shape = [3], dtype = Float32, data = [0, 1, 2]\<rparr>,
            \<lparr>shape = [2], dtype = Float32, data = [2, 4]\<rparr>)
   \<and> Lasagne_batch_gradients ex_lasagne ex_images ex_labels =
       Inr \<lparr>shape = [1, 2], dtype = Float32, data = [2, 4]\<rparr>
   \<and> Lasagne_batch_backward ex_lasagne ex_upstream ex_images =
       Inr \<lparr>shape = [1, 2], dtype = Float32, data = [2, 4]\<rparr>
   \<and> MXNet_predictions_and_gradient ex_mxnet ex_image ex_label =
       Inr (\<lparr>shape = [3], dtype = Float32, data = [0, 1, 2]\<rparr>,
            \<lparr>shape = [2], dtype = Float32, data = [2, 4]\<rparr>)
   \<and> MXNet_batch_gradients ex_mxnet ex_images ex_labels =
       Inr \<lparr>shape = [1, 2], dtype = Float32, data = [2, 4]\<rparr>
   \<and> MXNet_batch_backward ex_mxnet ex_upstream ex_images =
       Inr \<lparr>shape = [1, 2], dtype = Float32, data = [2, 4]\<rparr>"
proof -
  have w: "wf_tensor (divisor (preprocessing ex_keras))"
    "wf_tensor (divisor (preprocessing ex_lasagne))"
    "wf_tensor (divisor (preprocessing ex_mxnet))"
    by (simp_all add: wf_ex_prep)
  note t = gradients_leave_in_raw_space[OF w, where x = ex_image and l = ex_label
      and xs = ex_images and ls = ex_labels and us = ex_upstream]
  from t[where kp = "\<lparr>shape = [3], dtype = Float32, data = [0, 1, 2]\<rparr>"
      and kg = "\<lparr>shape = [2], dtype = Float32, data = [2, 4]\<rparr>", THEN conjunct1]
    ex_keras_pag
  have 1: "\<exists>ge. in_raw_space ex_prep ge \<lparr>shape = [2], dtype = Float32, data = [2, 4]\<rparr>"
    by auto
  from t[where kgs = "\<lparr>shape = [1, 2], dtype = Float32, data = [2, 4]\<rparr>",
      THEN conjunct2, THEN conjunct1] ex_keras_bg
  have 2: "\<exists>ge. in_raw_space ex_prep ge \<lparr>shape = [1, 2], dtype = Float32, data = [2, 4]\<rparr>"
    by auto
  from wf_ex_prep 1 2 ex_keras_pag ex_keras_bg ex_keras_bb ex_lasagne_pag ex_lasagne_bg
    ex_lasagne_bb ex_mxnet_pag ex_mxnet_bg ex_mxnet_bb
  show ?thesis by simp
qed

text \<open>
  C1 as stated fails for the MXNet and the Lasagne adapter.  Behind a divisor that is
  a 2 by 2 array, the MXNet adapter returns for an image of shape \<open>(2,)\<close> a gradient
  of shape \<open>(2, 2)\<close>, not broadcast back to the shape of the raw input.  For an image
  of integers the Lasagne adapter casts the engine's gradient \<open>[1/2, 3/2]\<close> to the
  image's dtype before scaling it, and returns \<open>[0, 1]\<close> where the engine's gradient
  times \<open>1 / divisor\<close> is \<open>[1/2, 3/2]\<close>.
\<close>

theorem gradient_shape_and_cast_counterexample:
  "shape ex_image = [2]
   \<and> MXNet_predictions_and_gradient ex_mxnet_grid ex_image ex_label =
       Inr (\<lparr>shape = [3], dtype = Float32, data = [0, 1, 2]\<rparr>,
            \<lparr>shape = [2, 2], dtype = Float32, data = [12, 5, 3 / 4, 5 / 16]\<rparr>)
   \<and> [2, 2] \<noteq> shape ex_image
   \<and> Lasagne_predictions_and_gradient ex_lasagne_half ex_image_int ex_label =
       Inr (\<lparr>shape = [3], dtype = Float32, data = [0, 1, 2]\<rparr>,
            \<lparr>shape = [2], dtype = Int64, data = [0, 1]\<rparr>)
   \<and> l_predictions_and_gradient_fn ex_lasagne_half
         [newaxis ex_image_int, newaxis (astype Int32 ex_label)] = Inr [toy_logits, half_grad]
   \<and> squeeze0 half_grad = Inr \<lparr>shape = [2], dtype = Float32, data = [1 / 2, 3 / 2]\<rparr>
   \<and> tensor_mul \<lparr>shape = [2], dtype = Float32, data = [1 / 2, 3 / 2]\<rparr>
         (reciprocal (divisor (preprocessing ex_lasagne_half)))
       = Inr \<lparr>shape = [2], dtype = Float32, data = [1 / 2, 3 / 2]\<rparr>
   \<and> [0, 1] \<noteq> [1 / 2, 3 / 2 :: real]"
  using ex_mxnet_grid_pag ex_lasagne_half_pag half_grad_scaled
  by (simp add: ex_image_def ex_lasagne_half_def ex_lasagne_def half_grad_def squeeze0_def)

section \<open>Batch sizes and ranks\<close>

lemma Lasagne_gradient_one_ok:
  assumes pi: "process_input (preprocessing m) x = Inr (px, dpdx)"
    and fn: "l_gradient_fn m [newaxis px, newaxis (astype Int32 l)] = Inr G"
    and sh: "shape G = 1 # shape px"
    and b1: "broadcastable_to (shape (subtrahend (preprocessing m))) (shape x)"
    and b2: "broadcastable_to (shape (divisor (preprocessing m))) (shape x)"
  shows "\<exists>g. Lasagne_gradient_one m x l = Inr g"
proof -
  from process_input_shape[OF pi b1 b2] have spx: "shape px = shape x" .
  from process_input_Inr(1)[OF pi] have d: "dpdx = reciprocal (divisor (preprocessing m))" .
  let ?ge = "astype (dtype px) (G\<lparr>shape := shape px\<rparr>)"
  from b2 spx have "broadcastable_to (shape (divisor (preprocessing m))) (shape ?ge)" by simp
  from process_gradient_ok[OF this] obtain g where
    g: "process_gradient (reciprocal (divisor (preprocessing m))) ?ge = Inr g"
    "shape g = shape ?ge" "dtype g = dtype ?ge" by blast
  from pi fn squeeze0_ok[OF sh] g d spx show ?thesis
    by (simp add: Lasagne_gradient_one_def Let_def)
qed

lemma Lasagne_backward_one_ok:
  assumes n: "ndim u = 1"
    and pi: "process_input (preprocessing m) x = Inr (px, dpdx)"
    and fn: "l_bw_gradient_fn m [newaxis u, newaxis px] = Inr G"
    and sh: "shape G = 1 # shape px"
    and b1: "broadcastable_to (shape (subtrahend (preprocessing m))) (shape x)"
    and b2: "broadcastable_to (shape (divisor (preprocessing m))) (shape x)"
  shows "\<exists>g. Lasagne_backward_one m u x = Inr g"
proof -
  from process_input_shape[OF pi b1 b2] have spx: "shape px = shape x" .
  from process_input_Inr(1)[OF pi] have d: "dpdx = reciprocal (divisor (preprocessing m))" .
  let ?ge = "astype (dtype px) (G\<lparr>shape := shape px\<rparr>)"
  from b2 spx have "broadcastable_to (shape (divisor (preprocessing m))) (shape ?ge)" by simp
  from process_gradient_ok[OF this] obtain g where
    g: "process_gradient (reciprocal (divisor (preprocessing m))) ?ge = Inr g"
    "shape g = shape ?ge" "dtype g = dtype ?ge" by blast
  from n pi fn squeeze0_ok[OF sh] g d spx show ?thesis
    by (simp add: Lasagne_backward_one_def Let_def)
qed

lemma Lasagne_batch_gradients_many:
  assumes "shape0 xs = Inr n" "1 < n" "shape ls \<noteq> []"
  shows "Lasagne_batch_gradients m xs ls = Inl NotImplementedError"
  using assms
  by (cases "shape ls") (auto simp: Lasagne_batch_gradients_def shape0_def)

lemma Lasagne_batch_backward_many:
  assumes "shape0 xs = Inr n" "1 < n" "shape us \<noteq> []"
  shows "Lasagne_batch_backward m us xs = Inl NotImplementedError"
  using assms
  by (cases "shape us") (auto simp: Lasagne_batch_backward_def shape0_def)

lemma index0_ok: "shape0 t = Inr 1 \<Longrightarrow> \<exists>u. index0 t = Inr u \<and> shape t = 1 # shape u \<and> dtype u = dtype t"
  by (auto simp: shape0_def index0_def split: list.splits)

lemma Lasagne_batch_gradients_one:
  assumes "shape0 xs = Inr 1" "shape0 ls = Inr 1"
  shows "\<exists>x l. index0 xs = Inr x \<and> index0 ls = Inr l \<and>
           Lasagne_batch_gradients m xs ls =
             rbind (Lasagne_gradient_one m x l) (\<lambda>g. Inr (newaxis g))"
proof -
  from index0_ok[OF assms(1)] index0_ok[OF assms(2)] obtain x l where
    "index0 xs = Inr x" "index0 ls = Inr l" by blast
  with assms show ?thesis by (simp add: Lasagne_batch_gradients_def)
qed

lemma Lasagne_batch_backward_one:
  assumes "shape0 xs = Inr 1" "shape0 us = Inr 1"
  shows "\<exists>x u. index0 xs = Inr x \<and> index0 us = Inr u \<and>
           Lasagne_batch_backward m us xs =
             rbind (Lasagne_backward_one m u x) (\<lambda>g. Inr (newaxis g))"
proof -
  from index0_ok[OF assms(1)] index0_ok[OF assms(2)] obtain x u where
    "index0 xs = Inr x" "index0 us = Inr u" by blast
  with assms show ?thesis by (simp add: Lasagne_batch_backward_def)
qed

text \<open>
  C4.  The Lasagne adapter, whose compiled gradient functions take one example:
  \<open>batch_gradients\<close> and \<open>batch_backward\<close> on a batch of more than one image (with labels,
  or upstream gradients, of rank at least one) fail with \<open>NotImplementedError\<close>.  On a
  batch of one image and one label, or one upstream gradient, the call is the
  single-example computation on the first entries with the batch axis put back; it
  returns whenever the compiled function returns a gradient in the shape of the array
  it is given and the preprocessing parameters broadcast to the image.
\<close>

theorem lasagne_batch_size_one_only:
  "(shape0 xs = Inr n \<and> 1 < n \<and> shape ls \<noteq> [] \<longrightarrow>
      Lasagne_batch_gradients m xs ls = Inl NotImplementedError)
   \<and> (shape0 xs = Inr n \<and> 1 < n \<and> shape us \<noteq> [] \<longrightarrow>
      Lasagne_batch_backward m us xs = Inl NotImplementedError)
   \<and> (shape0 xs = Inr 1 \<and> shape0 ls = Inr 1 \<longrightarrow>
      (\<exists>x l. index0 xs = Inr x \<and> index0 ls = Inr l \<and>
         Lasagne_batch_gradients m xs ls =
           rbind (Lasagne_gradient_one m x l) (\<lambda>g. Inr (newaxis g))))
   \<and> (shape0 xs = Inr 1 \<and> shape0 us = Inr 1 \<longrightarrow>
      (\<exists>x u. index0 xs = Inr x \<and> index0 us = Inr u \<and>
         Lasagne_batch_backward m us xs =
           rbind (Lasagne_backward_one m u x) (\<lambda>g. Inr (newaxis g))))
   \<and> (shape0 xs = Inr 1 \<and> shape0 ls = Inr 1 \<and> index0 xs = Inr xa \<and> index0 ls = Inr la
       \<and> process_input (preprocessing m) xa = Inr (px, dpdx)
       \<and> l_gradient_fn m [newaxis px, newaxis (astype Int32 la)] = Inr G
       \<and> shape G = shape (newaxis px)
       \<and> broadcastable_to (shape (subtrahend (preprocessing m))) (shape xa)
       \<and> broadcastable_to (shape (divisor (preprocessing m))) (shape xa) \<longrightarrow>
      (\<exists>g. Lasagne_gradient_one m xa la = Inr g \<and>
            Lasagne_batch_gradients m xs ls = Inr (newaxis g)))
   \<and> (shape0 xs = Inr 1 \<and> shape us = [1, c] \<and> index0 xs = Inr xa \<and> index0 us = Inr ua
       \<and> process_input (preprocessing m) xa = Inr (px, dpdx)
       \<and> l_bw_gradient_fn m [newaxis ua, newaxis px] = Inr G'
       \<and> shape G' = shape (newaxis px)
       \<and> broadcastable_to (shape (subtrahend (preprocessing m))) (shape xa)
       \<and> broadcastable_to (shape (divisor (preprocessing m))) (shape xa) \<longrightarrow>
      (\<exists>g. Lasagne_backward_one m ua xa = Inr g \<and>
            Lasagne_batch_backward m us xs = Inr (newaxis g)))"
proof (intro conjI impI)
  assume "shape0 xs = Inr n \<and> 1 < n \<and> shape ls \<noteq> []"
  then show "Lasagne_batch_gradients m xs ls = Inl NotImplementedError"
    using Lasagne_batch_gradients_many by blast
next
  assume "shape0 xs = Inr n \<and> 1 < n \<and> shape us \<noteq> []"
  then show "Lasagne_batch_backward m us xs = Inl NotImplementedError"
    using Lasagne_batch_backward_many by blast
next
  assume "shape0 xs = Inr 1 \<and> shape0 ls = Inr 1"
  then show "\<exists>x l. index0 xs = Inr x \<and> index0 ls = Inr l \<and>
         Lasagne_batch_gradients m xs ls =
           rbind (Lasagne_gradient_one m x l) (\<lambda>g. Inr (newaxis g))"
    using Lasagne_batch_gradients_one by blast
next
  assume "shape0 xs = Inr 1 \<and> shape0 us = Inr 1"
  then show "\<exists>x u. index0 xs = Inr x \<and> index0 us = Inr u \<and>
         Lasagne_batch_backward m us xs =
           rbind (Lasagne_backward_one m u x) (\<lambda>g. Inr (newaxis g))"
    using Lasagne_batch_backward_one by blast
next
  assume a: "shape0 xs = Inr 1 \<and> shape0 ls = Inr 1 \<and> index0 xs = Inr xa \<and> index0 ls = Inr la
       \<and> process_input (preprocessing m) xa = Inr (px, dpdx)
       \<and> l_gradient_fn m [newaxis px, newaxis (astype Int32 la)] = Inr G
       \<and> shape G = shape (newaxis px)
       \<and> broadcastable_to (shape (subtrahend (preprocessing m))) (shape xa)
       \<and> broadcastable_to (shape (divisor (preprocessing m))) (shape xa)"
  then have "\<exists>g. Lasagne_gradient_one m xa la = Inr g"
    by (intro Lasagne_gradient_one_ok[of m xa px dpdx la G]) simp_all
  then obtain g where "Lasagne_gradient_one m xa la = Inr g" ..
  with a show "\<exists>g. Lasagne_gradient_one m xa la = Inr g \<and>
            Lasagne_batch_gradients m xs ls = Inr (newaxis g)"
    by (simp add: Lasagne_batch_gradients_def)
next
  assume a: "shape0 xs = Inr 1 \<and> shape us = [1, c] \<and> index0 xs = Inr xa \<and> index0 us = Inr ua
       \<and> process_input (preprocessing m) xa = Inr (px, dpdx)
       \<and> l_bw_gradient_fn m [newaxis ua, newaxis px] = Inr G'
       \<and> shape G' = shape (newaxis px)
       \<and> broadcastable_to (shape (subtrahend (preprocessing m))) (shape xa)
       \<and> broadcastable_to (shape (divisor (preprocessing m))) (shape xa)"
  then have u: "ndim ua = 1" "shape0 us = Inr 1"
    by (auto simp: ndim_def shape0_def dest: index0_Inr)
  with a have "\<exists>g. Lasagne_backward_one m ua xa = Inr g"
    by (intro Lasagne_backward_one_ok[of ua m xa px dpdx G']) simp_all
  then obtain g where "Lasagne_backward_one m ua xa = Inr g" ..
  with a u show "\<exists>g. Lasagne_backward_one m ua xa = Inr g \<and>
            Lasagne_batch_backward m us xs = Inr (newaxis g)"
    by (simp add: Lasagne_batch_backward_def)
qed

theorem lasagne_batch_size_one_only_witness:
  "shape0 ex_images2 = Inr 2 \<and> shape ex_labels2 \<noteq> [] \<and> shape ex_upstream2 \<noteq> []
   \<and> Lasagne_batch_gradients ex_lasagne ex_images2 ex_labels2 = Inl NotImplementedError
   \<and> Lasagne_batch_backward ex_lasagne ex_upstream2 ex_images2 = Inl NotImplementedError
   \<and> shape0 ex_images = Inr 1 \<and> shape0 ex_labels = Inr 1 \<and> shape ex_upstream = [1, 3]
   \<and> (\<exists>g. Lasagne_gradient_one ex_lasagne ex_image \<lparr>shape = [], dtype = Int64, data = [1]\<rparr> = Inr g
         \<and> Lasagne_batch_gradients ex_lasagne ex_images ex_labels = Inr (newaxis g))
   \<and> (\<exists>g. Lasagne_backward_one ex_lasagne \<lparr>shape = [3], dtype = Float32, data = [1, 0, 0]\<rparr> ex_image = Inr g
         \<and> Lasagne_batch_backward ex_lasagne ex_upstream ex_images = Inr (newaxis g))"
proof -
  let ?px = "\<lparr>shape = [2], dtype = Float32, data = [1, 2]\<rparr>"
  let ?lb = "\<lparr>shape = [], dtype = Int64, data = [1]\<rparr>"
  let ?ub = "\<lparr>shape = [3], dtype = Float32, data = [1, 0, 0]\<rparr>"
  have s: "shape0 ex_images2 = Inr 2" "shape ex_labels2 \<noteq> []" "shape ex_upstream2 \<noteq> []"
    "shape0 ex_images = Inr 1" "shape0 ex_labels = Inr 1" "shape ex_upstream = [1, 3]"
    by (simp_all add: shape0_def ex_images2_def ex_labels2_def ex_upstream2_def ex_images_def
        ex_labels_def ex_upstream_def)
  have i: "index0 ex_images = Inr ex_image" "index0 ex_labels = Inr ?lb" "index0 ex_upstream = Inr ?ub"
    by (simp_all add: index0_def ex_images_def ex_image_def ex_labels_def ex_upstream_def)
  have p: "process_input (preprocessing ex_lasagne) ex_image = Inr (?px, reciprocal (divisor ex_prep))"
    by (simp add: run_defs)
  have f: "l_gradient_fn ex_lasagne [newaxis ?px, newaxis (astype Int32 ?lb)] = Inr (toy_grad (newaxis ?px))"
    "l_bw_gradient_fn ex_lasagne [newaxis ?ub, newaxis ?px] = Inr (toy_grad (newaxis ?px))"
    "shape (toy_grad (newaxis ?px)) = shape (newaxis ?px)"
    by (simp_all add: ex_lasagne_def toy_grad_def)
  have b: "broadcastable_to (shape (subtrahend (preprocessing ex_lasagne))) (shape ex_image)"
    "broadcastable_to (shape (divisor (preprocessing ex_lasagne))) (shape ex_image)"
    by (simp_all add: broadcastable_to_def broadcast_shapes_def ex_prep_def scalar_def ex_image_def)
  note t = lasagne_batch_size_one_only[where m = ex_lasagne and xa = ex_image and px = ?px
      and dpdx = "reciprocal (divisor ex_prep)" and la = ?lb and ua = ?ub
      and G = "toy_grad (newaxis ?px)" and G' = "toy_grad (newaxis ?px)" and c = 3]
  from t[where xs = ex_images2 and ls = ex_labels2 and us = ex_upstream2 and n = 2] s
  have 1: "Lasagne_batch_gradients ex_lasagne ex_images2 ex_labels2 = Inl NotImplementedError"
    and 2: "Lasagne_batch_backward ex_lasagne ex_upstream2 ex_images2 = Inl NotImplementedError"
    by simp_all
  from t[where xs = ex_images and ls = ex_labels and us = ex_upstream and n = 1] s i p f b
  have 3: "\<exists>g. Lasagne_gradient_one ex_lasagne ex_image ?lb = Inr g
         \<and> Lasagne_batch_gradients ex_lasagne ex_images ex_labels = Inr (newaxis g)"
    and 4: "\<exists>g. Lasagne_backward_one ex_lasagne ?ub ex_image = Inr g
         \<and> Lasagne_batch_backward ex_lasagne ex_upstream ex_images = Inr (newaxis g)"
    by blast+
  from s 1 2 3 4 show ?thesis by blast
qed

section \<open>The rank of the upstream gradient\<close>









section \<open>Shapes and dtypes of what is returned\<close>








text \<open>
  C2, as the code has it.  Whenever \<open>predictions_and_gradient\<close> returns: in the Keras
  adapter the predictions have the shape \<open>(num_classes(),)\<close>, the gradient has the
  shape of the raw image and the dtype of the gradient the compiled function
  returned; in the Lasagne adapter the predictions have the shape \<open>(num_classes(),)\<close>
  and the gradient has the shape and the dtype of the raw image; in the MXNet
  adapter, which checks nothing, the predictions are the one row of the block's
  output, the gradient has the dtype of the block's gradient, and it has the shape of
  the raw image when the block's gradient has the shape of the array it
  differentiates at and the parameters broadcast to the image.
\<close>

theorem predictions_and_gradient_postconditions:
  "(Keras_predictions_and_gradient km x l = Inr (kp, kg) \<longrightarrow>
      shape kp = [Keras_num_classes km] \<and> shape kg = shape x
      \<and> (\<exists>px P G. process_input (preprocessing km) x = Inr (px, reciprocal (divisor (preprocessing km)))
            \<and> k_pred_grad_fn km [newaxis px, newaxis l] = Inr [P, G] \<and> dtype kg = dtype G))
   \<and> (Lasagne_predictions_and_gradient lm x l = Inr (lp, lg) \<longrightarrow>
      map Some (shape lp) = [Lasagne_num_classes lm] \<and> shape lg = shape x \<and> dtype lg = dtype x)
   \<and> (MXNet_predictions_and_gradient mm x l = Inr (mp, mg) \<longrightarrow>
      (\<exists>px logits G. process_input (preprocessing mm) x = Inr (px, reciprocal (divisor (preprocessing mm)))
         \<and> forward (mx_block mm) (newaxis px) = Inr logits
         \<and> cross_entropy_backward (mx_block mm) (newaxis px) (newaxis l) = Inr G
         \<and> shape logits = 1 # shape mp \<and> dtype mg = dtype G
         \<and> (shape G = shape (newaxis px)
             \<and> broadcastable_to (shape (subtrahend (preprocessing mm))) (shape x)
             \<and> broadcastable_to (shape (divisor (preprocessing mm))) (shape x)
            \<longrightarrow> shape mg = shape x)))"
proof (intro conjI impI)
  assume "Keras_predictions_and_gradient km x l = Inr (kp, kg)"
  from Keras_predictions_and_gradient_Inr[OF this] obtain px P G ge where
    a: "process_input (preprocessing km) x = Inr (px, reciprocal (divisor (preprocessing km)))"
    "k_pred_grad_fn km [newaxis px, newaxis l] = Inr [P, G]" "squeeze0 G = Inr ge"
    "process_gradient (reciprocal (divisor (preprocessing km))) ge = Inr kg"
    "shape kp = [Keras_num_classes km]" "shape kg = shape x" by blast
  from process_gradient_dtype[OF a(4)] squeeze0_Inr[OF a(3)] have "dtype kg = dtype G" by simp
  with a show "shape kp = [Keras_num_classes km]" "shape kg = shape x"
    "\<exists>px P G. process_input (preprocessing km) x = Inr (px, reciprocal (divisor (preprocessing km)))
            \<and> k_pred_grad_fn km [newaxis px, newaxis l] = Inr [P, G] \<and> dtype kg = dtype G"
    by blast+
next
  assume "Lasagne_predictions_and_gradient lm x l = Inr (lp, lg)"
  from Lasagne_predictions_and_gradient_Inr[OF this]
  show "map Some (shape lp) = [Lasagne_num_classes lm]" "shape lg = shape x" "dtype lg = dtype x"
    by blast+
next
  assume "MXNet_predictions_and_gradient mm x l = Inr (mp, mg)"
  from MXNet_predictions_and_gradient_Inr[OF this] obtain px logits G ge where
    b: "process_input (preprocessing mm) x = Inr (px, reciprocal (divisor (preprocessing mm)))"
    "forward (mx_block mm) (newaxis px) = Inr logits"
    "cross_entropy_backward (mx_block mm) (newaxis px) (newaxis l) = Inr G"
    "squeeze0 logits = Inr mp" "squeeze0 G = Inr ge"
    "process_gradient (reciprocal (divisor (preprocessing mm))) ge = Inr mg" by blast
  from process_gradient_dtype[OF b(6)] squeeze0_Inr[OF b(5)] have d: "dtype mg = dtype G" by simp
  from squeeze0_Inr[OF b(4)] have s: "shape logits = 1 # shape mp" by simp
  have "shape mg = shape x"
    if "shape G = shape (newaxis px)"
      "broadcastable_to (shape (subtrahend (preprocessing mm))) (shape x)"
      "broadcastable_to (shape (divisor (preprocessing mm))) (shape x)"
  proof -
    from squeeze0_Inr[OF b(5)] that(1) have "shape ge = shape px" by simp
    from mxnet_gradient_shape[OF b(1) b(6) this that(2,3)] show ?thesis .
  qed
  with b d s
  show "\<exists>px logits G. process_input (preprocessing mm) x = Inr (px, reciprocal (divisor (preprocessing mm)))
         \<and> forward (mx_block mm) (newaxis px) = Inr logits
         \<and> cross_entropy_backward (mx_block mm) (newaxis px) (newaxis l) = Inr G
         \<and> shape logits = 1 # shape mp \<and> dtype mg = dtype G
         \<and> (shape G = shape (newaxis px)
             \<and> broadcastable_to (shape (subtrahend (preprocessing mm))) (shape x)
             \<and> broadcastable_to (shape (divisor (preprocessing mm))) (shape x)
            \<longrightarrow> shape mg = shape x)"
    by blast
qed

theorem predictions_and_gradient_postconditions_witness:
  "Keras_predictions_and_gradient ex_keras ex_image ex_label =
       Inr (\<lparr>shape = [3], dtype = Float32, data = [0, 1, 2]\<rparr>,
            \<lparr>shape = [2], dtype = Float32, data = [2, 4]\<rparr>)
   \<and> Lasagne_predictions_and_gradient ex_lasagne ex_image ex_label =
       Inr (\<lparr>shape = [3], dtype = Float32, data = [0, 1, 2]\<rparr>,
            \<lparr>shape = [2], dtype = Float32, data = [2, 4]\<rparr>)
   \<and> MXNet_predictions_and_gradient ex_mxnet ex_image ex_label =
       Inr (\<lparr>shape = [3], dtype = Float32, data = [0, 1, 2]\<rparr>,
            \<lparr>shape = [2], dtype = Float32, data = [2, 4]\<rparr>)
   \<and> [3] = [Keras_num_classes ex_keras]
   \<and> [Some 3] = [Lasagne_num_classes ex_lasagne]
   \<and> [2] = shape ex_image \<and> Float32 = dtype ex_image"
proof -
  let ?p = "\<lparr>shape = [3], dtype = Float32, data = [0, 1, 2]\<rparr>"
  let ?g = "\<lparr>shape = [2], dtype = Float32, data = [2, 4]\<rparr>"
  note t = predictions_and_gradient_postconditions[where km = ex_keras and lm = ex_lasagne
      and mm = ex_mxnet and x = ex_image and l = ex_label and kp = ?p and kg = ?g
      and lp = ?p and lg = ?g and mp = ?p and mg = ?g]
  from t[THEN conjunct1] ex_keras_pag
  have 1: "[3] = [Keras_num_classes ex_keras]" "[2] = shape ex_image" by auto
  from t[THEN conjunct2, THEN conjunct1] ex_lasagne_pag
  have 2: "[Some 3] = [Lasagne_num_classes ex_lasagne]" "Float32 = dtype ex_image" by auto
  from 1 2 ex_keras_pag ex_lasagne_pag ex_mxnet_pag show ?thesis by blast
qed

text \<open>
  C2 as stated fails for the Keras and the MXNet adapter.  Given a float64 image, the
  Keras adapter returns the float32 gradient of its compiled function; the MXNet
  adapter wrapped with a class count of 10 around a block of three outputs returns
  three predictions, and a float32 gradient as well.
\<close>

theorem gradient_dtype_counterexample:
  "dtype ex_image64 = Float64
   \<and> Keras_predictions_and_gradient ex_keras ex_image64 ex_label =
       Inr (\<lparr>shape = [3], dtype = Float32, data = [0, 1, 2]\<rparr>,
            \<lparr>shape = [2], dtype = Float32, data = [2, 4]\<rparr>)
   \<and> MXNet_num_classes ex_mxnet10 = 10
   \<and> MXNet_predictions_and_gradient ex_mxnet10 ex_image64 ex_label =
       Inr (\<lparr>shape = [3], dtype = Float32, data = [0, 1, 2]\<rparr>,
            \<lparr>shape = [2], dtype = Float32, data = [2, 4]\<rparr>)
   \<and> Float32 \<noteq> dtype ex_image64
   \<and> [3] \<noteq> [MXNet_num_classes ex_mxnet10]"
  using ex_keras_pag64 ex_mxnet10_pag by (simp add: ex_image64_def mx_defs)

section \<open>The output convention of the Keras adapter\<close>

lemma Keras_to_logits_eq:
  "Keras_to_logits z = KLog (KClip z (1 / 10 ^ 7) (1 - 1 / 10 ^ 7))"
  by (simp add: Keras_to_logits_def Let_def)

lemma Keras_compile_fallback:
  assumes "K_backend env \<noteq> ''tensorflow''"
  shows "\<exists>m. Keras_compile env base ''probabilities'' n =
           (Inr m, [''relying on numerically unstable conversion from probabilities to softmax''])
         \<and> k_predictions m = Keras_to_logits (model_output env)
         \<and> k_loss m = KSum0 (KSparseCCE (KPlaceholder (Dims [None])) (model_output env) False)
         \<and> k_num_classes m = n"
  using assms by (simp add: Keras_compile_def Let_def)

lemma Keras_compile_exact:
  assumes "K_backend env = ''tensorflow''" "output_op_inputs env = [z]"
  shows "\<exists>m. Keras_compile env base ''probabilities'' n = (Inr m, [])
         \<and> k_predictions m = z
         \<and> k_loss m = KSum0 (KSparseCCE (KPlaceholder (Dims [None])) z True)
         \<and> k_num_classes m = n"
  using assms by (simp add: Keras_compile_def Let_def)

lemma KerasModel_init_probabilities:
  assumes "version_le [2, 0, 7] (keras_version env)" "K_int_shape env = Some [b, Some n]"
  shows "KerasModel_init env bnds caxis prep ''probabilities'' =
           Keras_compile env (base_init bnds caxis prep) ''probabilities'' n"
  using assms by (simp add: KerasModel_init_def Let_def)

text \<open>
  C6.  A Keras adapter constructed with \<open>predicts = 'probabilities'\<close> on the tensorflow
  backend builds its cross-entropy loss, with \<open>from_logits=True\<close>, on the one input of
  the op that produces the model's output and uses that tensor as its predictions,
  without any warning; on every other backend it logs the warning about the
  numerically unstable conversion and takes as predictions the natural logarithm of
  the output clipped to \<open>[eps, 1 - eps]\<close> with \<open>eps = 1e-7\<close>.
\<close>

theorem probabilities_to_logits_policy:
  assumes "version_le [2, 0, 7] (keras_version env)"
    and "K_int_shape env = Some [b, Some n]"
  shows "(K_backend env = ''tensorflow'' \<and> output_op_inputs env = [z] \<longrightarrow>
            (\<exists>m. KerasModel_init env bnds caxis prep ''probabilities'' = (Inr m, [])
               \<and> k_loss m = KSum0 (KSparseCCE (KPlaceholder (Dims [None])) z True)
               \<and> k_predictions m = z))
       \<and> (K_backend env \<noteq> ''tensorflow'' \<longrightarrow>
            (\<exists>m. KerasModel_init env bnds caxis prep ''probabilities'' =
                 (Inr m, [''relying on numerically unstable conversion from probabilities to softmax''])
               \<and> k_predictions m =
                   KLog (KClip (model_output env) (1 / 10 ^ 7) (1 - 1 / 10 ^ 7))))"
proof (intro conjI impI)
  assume "K_backend env = ''tensorflow'' \<and> output_op_inputs env = [z]"
  then show "\<exists>m. KerasModel_init env bnds caxis prep ''probabilities'' = (Inr m, [])
               \<and> k_loss m = KSum0 (KSparseCCE (KPlaceholder (Dims [None])) z True)
               \<and> k_predictions m = z"
    using Keras_compile_exact[of env z "base_init bnds caxis prep" n]
    by (auto simp: KerasModel_init_probabilities[OF assms])
next
  assume "K_backend env \<noteq> ''tensorflow''"
  then show "\<exists>m. KerasModel_init env bnds caxis prep ''probabilities'' =
                 (Inr m, [''relying on numerically unstable conversion from probabilities to softmax''])
               \<and> k_predictions m =
                   KLog (KClip (model_output env) (1 / 10 ^ 7) (1 - 1 / 10 ^ 7))"
    using Keras_compile_fallback[of env "base_init bnds caxis prep" n]
    by (auto simp: KerasModel_init_probabilities[OF assms] Keras_to_logits_eq)
qed

theorem probabilities_to_logits_policy_witness:
  "(\<exists>m. KerasModel_init ex_env_tf (0, 1) 3 ex_prep ''probabilities'' = (Inr m, [])
      \<and> k_loss m = KSum0 (KSparseCCE (KPlaceholder (Dims [None])) (KTensor ''dense/BiasAdd'') True)
      \<and> k_predictions m = KTensor ''dense/BiasAdd'')
   \<and> (\<exists>m. KerasModel_init ex_env_theano (0, 1) 3 ex_prep ''probabilities'' =
           (Inr m, [''relying on numerically unstable conversion from probabilities to softmax''])
      \<and> k_predictions m =
          KLog (KClip (KTensor ''softmax/Softmax'') (1 / 10 ^ 7) (1 - 1 / 10 ^ 7)))"
proof -
  have v: "version_le [2, 0, 7] (keras_version ex_env_tf)"
    "version_le [2, 0, 7] (keras_version ex_env_theano)"
    by (simp_all add: ex_env_tf_def ex_env_theano_def)
  have s: "K_int_shape ex_env_tf = Some [None, Some 10]"
    "K_int_shape ex_env_theano = Some [None, Some 10]"
    by (simp_all add: ex_env_tf_def ex_env_theano_def)
  have 1: "K_backend ex_env_tf = ''tensorflow'' \<and> output_op_inputs ex_env_tf = [KTensor ''dense/BiasAdd'']"
    by (simp add: ex_env_tf_def)
  have 2: "K_backend ex_env_theano \<noteq> ''tensorflow''"
    by (simp add: ex_env_tf_def ex_env_theano_def)
  have 3: "model_output ex_env_theano = KTensor ''softmax/Softmax''"
    by (simp add: ex_env_tf_def ex_env_theano_def)
  from probabilities_to_logits_policy[OF v(1) s(1), of "KTensor ''dense/BiasAdd''" "(0, 1)" 3 ex_prep] 1
    probabilities_to_logits_policy[OF v(2) s(2), of "KTensor ''dense/BiasAdd''" "(0, 1)" 3 ex_prep] 2 3
  show ?thesis by simp
qed

text \<open>
  C10.  The constructor of the Keras adapter treats \<open>predicts = 'probs'\<close> exactly as
  \<open>predicts = 'probabilities'\<close>: with a supported Keras release and a known class
  count it goes on to build the graph for the convention \<open>'probabilities'\<close>, and the
  construction succeeds, on the tensorflow backend with the loss on the single input
  of the output op and on any other backend with the warning and the clipped
  logarithm.  With any value other than \<open>'probabilities'\<close>, \<open>'probs'\<close> and \<open>'logits'\<close>
  it fails with the assertion error, whatever the engine would compile and without
  logging anything.
\<close>

theorem predicts_alias_and_check:
  "KerasModel_init env bnds caxis prep ''probs'' =
     KerasModel_init env bnds caxis prep ''probabilities''
   \<and> (version_le [2, 0, 7] (keras_version env) \<and> K_int_shape env = Some [b, Some n] \<longrightarrow>
        KerasModel_init env bnds caxis prep ''probs'' =
          Keras_compile env (base_init bnds caxis prep) ''probabilities'' n)
   \<and> (version_le [2, 0, 7] (keras_version env) \<and> K_int_shape env = Some [b, Some n]
       \<and> K_backend env = ''tensorflow'' \<and> output_op_inputs env = [z] \<longrightarrow>
        (\<exists>m. KerasModel_init env bnds caxis prep ''probs'' = (Inr m, [])
           \<and> Keras_num_classes m = n
           \<and> k_loss m = KSum0 (KSparseCCE (KPlaceholder (Dims [None])) z True)
           \<and> k_predictions m = z))
   \<and> (version_le [2, 0, 7] (keras_version env) \<and> K_int_shape env = Some [b, Some n]
       \<and> K_backend env \<noteq> ''tensorflow'' \<longrightarrow>
        (\<exists>m. KerasModel_init env bnds caxis prep ''probs'' =
             (Inr m, [''relying on numerically unstable conversion from probabilities to softmax''])
           \<and> Keras_num_classes m = n
           \<and> k_predictions m = Keras_to_logits (model_output env)))
   \<and> (predicts \<notin> {''probabilities'', ''probs'', ''logits''} \<longrightarrow>
        KerasModel_init env bnds caxis prep predicts = (Inl AssertionError, []))"
proof -
  have same: "KerasModel_init env bnds caxis prep ''probs'' =
     KerasModel_init env bnds caxis prep ''probabilities''"
    by (simp add: KerasModel_init_def Let_def)
  have compile: "KerasModel_init env bnds caxis prep ''probs'' =
          Keras_compile env (base_init bnds caxis prep) ''probabilities'' n"
    if "version_le [2, 0, 7] (keras_version env)" "K_int_shape env = Some [b, Some n]"
    using KerasModel_init_probabilities[OF that, of bnds caxis prep] same by simp
  show ?thesis
  proof (intro conjI impI)
    show "KerasModel_init env bnds caxis prep ''probs'' =
        KerasModel_init env bnds caxis prep ''probabilities''"
      by (rule same)
  next
    assume "version_le [2, 0, 7] (keras_version env) \<and> K_int_shape env = Some [b, Some n]"
    then show "KerasModel_init env bnds caxis prep ''probs'' =
          Keras_compile env (base_init bnds caxis prep) ''probabilities'' n"
      using compile by blast
  next
    assume a: "version_le [2, 0, 7] (keras_version env) \<and> K_int_shape env = Some [b, Some n]
       \<and> K_backend env = ''tensorflow'' \<and> output_op_inputs env = [z]"
    then have i: "KerasModel_init env bnds caxis prep ''probs'' =
          Keras_compile env (base_init bnds caxis prep) ''probabilities'' n"
      using compile by blast
    from a Keras_compile_exact[of env z "base_init bnds caxis prep" n]
    show "\<exists>m. KerasModel_init env bnds caxis prep ''probs'' = (Inr m, [])
           \<and> Keras_num_classes m = n
           \<and> k_loss m = KSum0 (KSparseCCE (KPlaceholder (Dims [None])) z True)
           \<and> k_predictions m = z"
      by (auto simp: i Keras_num_classes_def)
  next
    assume a: "version_le [2, 0, 7] (keras_version env) \<and> K_int_shape env = Some [b, Some n]
       \<and> K_backend env \<noteq> ''tensorflow''"
    then have i: "KerasModel_init env bnds caxis prep ''probs'' =
          Keras_compile env (base_init bnds caxis prep) ''probabilities'' n"
      using compile by blast
    from a Keras_compile_fallback[of env "base_init bnds caxis prep" n]
    show "\<exists>m. KerasModel_init env bnds caxis prep ''probs'' =
             (Inr m, [''relying on numerically unstable conversion from probabilities to softmax''])
           \<and> Keras_num_classes m = n
           \<and> k_predictions m = Keras_to_logits (model_output env)"
      by (auto simp: i Keras_num_classes_def)
  next
    assume "predicts \<notin> {''probabilities'', ''probs'', ''logits''}"
    then show "KerasModel_init env bnds caxis prep predicts = (Inl AssertionError, [])"
      by (simp add: KerasModel_init_def Let_def)
  qed
qed

theorem predicts_alias_and_check_witness:
  "''softmax'' \<notin> {''probabilities'', ''probs'', ''logits''}
   \<and> KerasModel_init ex_env_tf (0, 1) 3 ex_prep ''softmax'' = (Inl AssertionError, [])
   \<and> KerasModel_init ex_env_tf (0, 1) 3 ex_prep ''probs'' =
       KerasModel_init ex_env_tf (0, 1) 3 ex_prep ''probabilities''
   \<and> (\<exists>m. KerasModel_init ex_env_tf (0, 1) 3 ex_prep ''probs'' = (Inr m, [])
        \<and> Keras_num_classes m = 10
        \<and> k_loss m =
            KSum0 (KSparseCCE (KPlaceholder (Dims [None])) (KTensor ''dense/BiasAdd'') True)
        \<and> k_predictions m = KTensor ''dense/BiasAdd'')
   \<and> (\<exists>m. KerasModel_init ex_env_theano (0, 1) 3 ex_prep ''probs'' =
           (Inr m, [''relying on numerically unstable conversion from probabilities to softmax''])
        \<and> Keras_num_classes m = 10
        \<and> k_predictions m = Keras_to_logits (KTensor ''softmax/Softmax''))"
proof -
  have tf: "version_le [2, 0, 7] (keras_version ex_env_tf)"
    "K_int_shape ex_env_tf = Some [None, Some 10]"
    "K_backend ex_env_tf = ''tensorflow''"
    "output_op_inputs ex_env_tf = [KTensor ''dense/BiasAdd'']"
    by (simp_all add: ex_env_tf_def)
  have th: "version_le [2, 0, 7] (keras_version ex_env_theano)"
    "K_int_shape ex_env_theano = Some [None, Some 10]"
    "K_backend ex_env_theano \<noteq> ''tensorflow''"
    "model_output ex_env_theano = KTensor ''softmax/Softmax''"
    by (simp_all add: ex_env_theano_def ex_env_tf_def)
  note t1 = predicts_alias_and_check[of ex_env_tf "(0, 1)" 3 ex_prep None 10
      "KTensor ''dense/BiasAdd''" "''softmax''"]
  note t2 = predicts_alias_and_check[of ex_env_theano "(0, 1)" 3 ex_prep None 10
      "KTensor ''dense/BiasAdd''" "''softmax''"]
  from t1 have 1: "KerasModel_init ex_env_tf (0, 1) 3 ex_prep ''softmax'' = (Inl AssertionError, [])"
    "KerasModel_init ex_env_tf (0, 1) 3 ex_prep ''probs'' =
       KerasModel_init ex_env_tf (0, 1) 3 ex_prep ''probabilities''"
    by simp_all
  from t1 tf have 2: "\<exists>m. KerasModel_init ex_env_tf (0, 1) 3 ex_prep ''probs'' = (Inr m, [])
        \<and> Keras_num_classes m = 10
        \<and> k_loss m =
            KSum0 (KSparseCCE (KPlaceholder (Dims [None])) (KTensor ''dense/BiasAdd'') True)
        \<and> k_predictions m = KTensor ''dense/BiasAdd''"
    by blast
  from t2 th have 3: "\<exists>m. KerasModel_init ex_env_theano (0, 1) 3 ex_prep ''probs'' =
           (Inr m, [''relying on numerically unstable conversion from probabilities to softmax''])
        \<and> Keras_num_classes m = 10
        \<and> k_predictions m = Keras_to_logits (KTensor ''softmax/Softmax'')"
    by metis
  from 1 2 3 show ?thesis by simp
qed

section \<open>Construction and the class count\<close>

lemma KerasModel_init_old_version:
  "\<not> version_le [2, 0, 7] (keras_version env) \<Longrightarrow>
     KerasModel_init env bnds caxis prep predicts = (Inl AssertionError, [])"
  by (simp add: KerasModel_init_def Let_def)

lemma KerasModel_init_unknown_classes:
  "K_int_shape env = Some [b, None] \<Longrightarrow>
     KerasModel_init env bnds caxis prep predicts = (Inl AssertionError, [])"
  by (simp add: KerasModel_init_def Let_def)

lemma Keras_compile_num_classes:
  "Keras_compile env base predicts n = (Inr m, lg) \<Longrightarrow> k_num_classes m = n"
  by (auto simp: Keras_compile_def Let_def split: if_splits list.splits)

lemma KerasModel_init_num_classes:
  assumes "KerasModel_init env bnds caxis prep predicts = (Inr m, lg)"
  shows "version_le [2, 0, 7] (keras_version env) \<and>
         (\<exists>b. K_int_shape env = Some [b, Some (Keras_num_classes m)])"
proof -
  from assms have v: "version_le [2, 0, 7] (keras_version env)"
    by (auto simp: KerasModel_init_def Let_def split: if_splits)
  from assms v obtain b n p where
    "K_int_shape env = Some [b, Some n]" "Keras_compile env (base_init bnds caxis prep) p n = (Inr m, lg)"
    by (auto simp: KerasModel_init_def Let_def split: if_splits option.splits list.splits)
  with v show ?thesis
    by (auto simp: Keras_num_classes_def dest: Keras_compile_num_classes)
qed

lemma LasagneModel_init_pair:
  "get_output_shape env = [b, c] \<Longrightarrow>
     \<exists>m lg. LasagneModel_init env bnds caxis prep = (Inr m, lg) \<and> Lasagne_num_classes m = c"
  by (simp add: LasagneModel_init_def Let_def Lasagne_num_classes_def)

lemma LasagneModel_init_num_classes:
  "LasagneModel_init env bnds caxis prep = (Inr m, lg) \<Longrightarrow>
     \<exists>b. get_output_shape env = [b, Lasagne_num_classes m]"
  by (auto simp: LasagneModel_init_def Let_def Lasagne_num_classes_def split: list.splits)

text \<open>
  C7, as the code has it.  The constructor of the Keras adapter fails with the
  assertion error when the Keras release is older than 2.0.7 and when the class entry
  of the two-entry output shape is unknown; when it succeeds, the release is at least
  2.0.7 and \<open>num_classes()\<close> is the known class entry of the output shape.  The
  constructor of the Lasagne adapter checks neither: for every two-entry output shape
  it succeeds and \<open>num_classes()\<close> is the second entry as it stands, known or not.
  The MXNet adapter returns the class count its caller passed.
\<close>

theorem class_count_fixed_at_construction:
  "(\<not> version_le [2, 0, 7] (keras_version kenv) \<longrightarrow>
      KerasModel_init kenv bnds caxis prep predicts = (Inl AssertionError, []))
   \<and> (K_int_shape kenv = Some [kb, None] \<longrightarrow>
      KerasModel_init kenv bnds caxis prep predicts = (Inl AssertionError, []))
   \<and> (KerasModel_init kenv bnds caxis prep predicts = (Inr km, klog) \<longrightarrow>
      version_le [2, 0, 7] (keras_version kenv) \<and>
      (\<exists>b. K_int_shape kenv = Some [b, Some (Keras_num_classes km)]))
   \<and> (get_output_shape lenv = [lb, lc] \<longrightarrow>
      (\<exists>m lg. LasagneModel_init lenv bnds caxis prep = (Inr m, lg) \<and> Lasagne_num_classes m = lc))
   \<and> (LasagneModel_init lenv bnds caxis prep = (Inr lm, llog) \<longrightarrow>
      (\<exists>b. get_output_shape lenv = [b, Lasagne_num_classes lm]))
   \<and> MXNet_num_classes (MXNetGluonModel_init block bnds n ctx caxis prep) = n"
  using KerasModel_init_old_version[of kenv bnds caxis prep predicts]
    KerasModel_init_unknown_classes[of kenv kb bnds caxis prep predicts]
    KerasModel_init_num_classes[of kenv bnds caxis prep predicts km klog]
    LasagneModel_init_pair[of lenv lb lc bnds caxis prep]
    LasagneModel_init_num_classes[of lenv bnds caxis prep lm llog]
  by (simp add: MXNet_num_classes_def MXNetGluonModel_init_def Let_def)

theorem class_count_fixed_at_construction_witness:
  "\<not> version_le [2, 0, 7] (keras_version ex_env_old)
   \<and> KerasModel_init ex_env_old (0, 1) 3 ex_prep ''logits'' = (Inl AssertionError, [])
   \<and> K_int_shape ex_env_unknown = Some [None, None]
   \<and> KerasModel_init ex_env_unknown (0, 1) 3 ex_prep ''logits'' = (Inl AssertionError, [])
   \<and> (\<exists>m. KerasModel_init ex_env_tf (0, 1) 3 ex_prep ''logits'' = (Inr m, [])
        \<and> Keras_num_classes m = 10)
   \<and> (\<exists>m lg. LasagneModel_init (ex_lasagne_env\<lparr>get_output_shape := [None, Some 10]\<rparr>) (0, 1) 3 ex_prep
         = (Inr m, lg) \<and> Lasagne_num_classes m = Some 10)"
proof -
  have a: "\<not> version_le [2, 0, 7] (keras_version ex_env_old)"
    by (simp add: ex_env_old_def ex_env_tf_def)
  have b: "K_int_shape ex_env_unknown = Some [None, None]"
    by (simp add: ex_env_unknown_def ex_env_tf_def)
  have c: "\<exists>m. KerasModel_init ex_env_tf (0, 1) 3 ex_prep ''logits'' = (Inr m, [])"
    by (simp add: KerasModel_init_def Keras_compile_def ex_env_tf_def Let_def)
  then obtain m where m: "KerasModel_init ex_env_tf (0, 1) 3 ex_prep ''logits'' = (Inr m, [])" ..
  have d: "get_output_shape (ex_lasagne_env\<lparr>get_output_shape := [None, Some 10]\<rparr>) = [None, Some 10]"
    by simp
  have e: "K_int_shape ex_env_tf = Some [None, Some 10]" by (simp add: ex_env_tf_def)
  from class_count_fixed_at_construction[of ex_env_old "(0, 1)" 3 ex_prep "''logits''" None m "[]"
      "ex_lasagne_env\<lparr>get_output_shape := [None, Some 10]\<rparr>" None "Some 10"] a
  have 1: "KerasModel_init ex_env_old (0, 1) 3 ex_prep ''logits'' = (Inl AssertionError, [])"
    by blast
  from class_count_fixed_at_construction[of ex_env_unknown "(0, 1)" 3 ex_prep "''logits''" None m "[]"
      "ex_lasagne_env\<lparr>get_output_shape := [None, Some 10]\<rparr>" None "Some 10"] b
  have 2: "KerasModel_init ex_env_unknown (0, 1) 3 ex_prep ''logits'' = (Inl AssertionError, [])"
    by blast
  from class_count_fixed_at_construction[of ex_env_tf "(0, 1)" 3 ex_prep "''logits''" None m "[]"
      "ex_lasagne_env\<lparr>get_output_shape := [None, Some 10]\<rparr>" None "Some 10"] m d e
  have 3: "Keras_num_classes m = 10"
    and 4: "\<exists>m lg. LasagneModel_init (ex_lasagne_env\<lparr>get_output_shape := [None, Some 10]\<rparr>) (0, 1) 3 ex_prep
         = (Inr m, lg) \<and> Lasagne_num_classes m = Some 10"
    by auto
  from a b 1 2 3 4 m show ?thesis by blast
qed

text \<open>
  C7 as stated fails: constructing the Lasagne adapter on a network whose output shape
  is \<open>(None, None)\<close> succeeds, and \<open>num_classes()\<close> is then \<open>None\<close>.
\<close>

theorem lasagne_unknown_class_count_counterexample:
  "fst (LasagneModel_init ex_lasagne_env (0, 1) 1 ex_prep) \<noteq> Inl AssertionError
   \<and> map_sum id Lasagne_num_classes (fst (LasagneModel_init ex_lasagne_env (0, 1) 1 ex_prep))
       = Inr None"
  by (simp add: LasagneModel_init_def ex_lasagne_env_def Let_def Lasagne_num_classes_def)

section \<open>Fetching a repository\<close>

lemma clone_exists:
  assumes "path_exists w (home_directory_path c FOLDER (sha256_hash c git_uri))"
  shows "clone c git_uri w =
           (Inr (home_directory_path c FOLDER (sha256_hash c git_uri)),
            logging ''Git repository already exists locally.'' w)"
  using assms by (simp add: clone_def Let_def)

lemma clone_path:
  "fst (clone c git_uri w) = Inr p \<Longrightarrow> p = home_directory_path c FOLDER (sha256_hash c git_uri)"
  by (auto simp: clone_def Let_def split: if_splits prod.splits sum.splits)

lemma clone_creates:
  assumes "fst (clone c git_uri w) = Inr p"
  shows "path_exists (snd (clone c git_uri w)) p"
proof (cases "path_exists w (home_directory_path c FOLDER (sha256_hash c git_uri))")
  case True
  with assms clone_path[OF assms] show ?thesis
    by (simp add: clone_exists logging_def path_exists_def)
next
  case False
  with assms clone_path[OF assms] show ?thesis
    by (auto simp: clone_def clone_repo_def Repo_clone_from_def logging_def path_exists_def Let_def
        split: option.splits if_splits)
qed

text \<open>
  C8.  The path \<open>clone\<close> returns is the home-directory path of the folder
  \<open>.foolbox_zoo\<close> and the sha256 hash of the URI, whatever the state of the world, so
  two URIs with the same hash give the same path; when that path exists locally,
  \<open>clone\<close> returns it and neither clones nor changes the local paths; and after a call
  that returned, a second call with the same URI returns the same path without
  performing another clone.
\<close>

theorem clone_idempotent:
  "(fst (clone c git_uri w) = Inr p \<longrightarrow>
      p = home_directory_path c FOLDER (sha256_hash c git_uri))
   \<and> (path_exists w (home_directory_path c FOLDER (sha256_hash c git_uri)) \<longrightarrow>
      fst (clone c git_uri w) = Inr (home_directory_path c FOLDER (sha256_hash c git_uri))
      \<and> clones (snd (clone c git_uri w)) = clones w
      \<and> paths (snd (clone c git_uri w)) = paths w)
   \<and> (fst (clone c git_uri w) = Inr p \<longrightarrow>
      fst (clone c git_uri (snd (clone c git_uri w))) = Inr p
      \<and> clones (snd (clone c git_uri (snd (clone c git_uri w)))) = clones (snd (clone c git_uri w)))"
proof (intro conjI impI)
  assume "fst (clone c git_uri w) = Inr p"
  then show "p = home_directory_path c FOLDER (sha256_hash c git_uri)" by (rule clone_path)
next
  assume e: "path_exists w (home_directory_path c FOLDER (sha256_hash c git_uri))"
  show "fst (clone c git_uri w) = Inr (home_directory_path c FOLDER (sha256_hash c git_uri))"
    "clones (snd (clone c git_uri w)) = clones w"
    "paths (snd (clone c git_uri w)) = paths w"
    by (simp_all add: clone_exists[OF e] logging_def)
next
  assume r: "fst (clone c git_uri w) = Inr p"
  then have p: "p = home_directory_path c FOLDER (sha256_hash c git_uri)" by (rule clone_path)
  from clone_creates[OF r] p
  have e: "path_exists (snd (clone c git_uri w)) (home_directory_path c FOLDER (sha256_hash c git_uri))"
    by simp
  show "fst (clone c git_uri (snd (clone c git_uri w))) = Inr p"
    "clones (snd (clone c git_uri (snd (clone c git_uri w)))) = clones (snd (clone c git_uri w))"
    by (simp_all add: clone_exists[OF e] p logging_def)
qed

lemma clone_good:
  "clone ex_common ''good'' ex_world =
     (Inr ''/home/u/.foolbox_zoo/hgood'',
      \<lparr>paths = [''/home/u/.foolbox_zoo/hgood''], remote = remote ex_world,
       clones = [(''good'', ''/home/u/.foolbox_zoo/hgood'')],
       logged = [''Cloning repo good to /home/u/.foolbox_zoo/hgood'', ''Cloned repo successfully.'']\<rparr>)"
  by (simp add: clone_def clone_repo_def Repo_clone_from_def logging_def path_exists_def Let_def
      ex_common_def ex_world_def FOLDER_def)

theorem clone_idempotent_witness:
  "fst (clone ex_common ''good'' ex_world) = Inr ''/home/u/.foolbox_zoo/hgood''
   \<and> fst (clone ex_common ''good'' (snd (clone ex_common ''good'' ex_world)))
       = Inr ''/home/u/.foolbox_zoo/hgood''
   \<and> clones (snd (clone ex_common ''good'' (snd (clone ex_common ''good'' ex_world))))
       = [(''good'', ''/home/u/.foolbox_zoo/hgood'')]
   \<and> path_exists (snd (clone ex_common ''good'' ex_world)) ''/home/u/.foolbox_zoo/hgood''"
proof -
  have 1: "fst (clone ex_common ''good'' ex_world) = Inr ''/home/u/.foolbox_zoo/hgood''"
    by (simp add: clone_good)
  have 2: "clones (snd (clone ex_common ''good'' ex_world)) = [(''good'', ''/home/u/.foolbox_zoo/hgood'')]"
    by (simp add: clone_good)
  have 3: "path_exists (snd (clone ex_common ''good'' ex_world)) ''/home/u/.foolbox_zoo/hgood''"
    by (simp add: clone_good path_exists_def)
  from clone_idempotent[of ex_common "''good''" ex_world "''/home/u/.foolbox_zoo/hgood''"] 1 2 3
  show ?thesis by simp
qed

text \<open>
  C9.  When the repository is not yet present locally and \<open>Repo.clone_from\<close> raises an
  exception (a Python \<open>Exception\<close>), \<open>clone\<close> fails with \<open>GitCloneError\<close>; and whatever
  \<open>Repo.clone_from\<close> raises, \<open>clone\<close> fails too and returns no path.
\<close>

theorem clone_failure_raises:
  "\<not> path_exists w (home_directory_path c FOLDER (sha256_hash c git_uri)) \<and>
   remote w git_uri = Some e
   \<longrightarrow> (is_Exception e \<longrightarrow> fst (clone c git_uri w) = Inl GitCloneError)
     \<and> (\<exists>e'. fst (clone c git_uri w) = Inl e')"
  by (simp add: clone_def clone_repo_def Repo_clone_from_def logging_def Let_def)

theorem clone_failure_raises_witness:
  "\<not> path_exists ex_world (home_directory_path ex_common FOLDER (sha256_hash ex_common ''bad''))
   \<and> remote ex_world ''bad'' = Some (OtherException ''GitCommandError'')
   \<and> is_Exception (OtherException ''GitCommandError'')
   \<and> fst (clone ex_common ''bad'' ex_world) = Inl GitCloneError"
proof -
  have 1: "\<not> path_exists ex_world (home_directory_path ex_common FOLDER (sha256_hash ex_common ''bad''))"
    by (simp add: path_exists_def ex_world_def)
  have 3: "remote ex_world ''bad'' = Some (OtherException ''GitCommandError'')"
    by (simp add: ex_world_def)
  from clone_failure_raises[of ex_world ex_common "''bad''" "OtherException ''GitCommandError''"] 1 3
  show ?thesis by simp
qed

end
